theory Spec2Isabelle
  imports Complex_Main
begin

section \<open>Python exceptions\<close>

text \<open>
  The exceptions the layers can raise, directly or through the array runtime.
  \<open>ShapeError\<close> is the failure of \<open>pad_to_shape\<close>.
\<close>

datatype error =
    ValueError
  | IndexError
  | AttributeError
  | ZeroDivisionError
  | OverflowError
  | AxisError
  | ShapeError

section \<open>The array runtime\<close>

text \<open>
  A numpy array is its shape together with its elements in row-major order.
  Elements are idealised as real numbers.  The shape is a field of its own, so
  that arrays with an empty axis keep their other extents, as in numpy.
\<close>

record ndarray =
  shape :: "nat list"
  data :: "real list"

definition wf_array :: "ndarray \<Rightarrow> bool" where
  "wf_array a = (length (data a) = prod_list (shape a))"

text \<open>All multi-indices of a shape, in row-major order, and the flat position of one.\<close>

fun indices :: "nat list \<Rightarrow> nat list list" where
  "indices [] = [[]]"
| "indices (d # ds) = concat (map (\<lambda>i. map ((#) i) (indices ds)) [0..<d])"

fun ravel :: "nat list \<Rightarrow> nat list \<Rightarrow> nat" where
  "ravel (d # ds) (i # is) = i * prod_list ds + ravel ds is"
| "ravel _ _ = 0"

definition in_bounds :: "nat list \<Rightarrow> nat list \<Rightarrow> bool" where
  "in_bounds sh idx = list_all2 (<) idx sh"

definition get :: "ndarray \<Rightarrow> nat list \<Rightarrow> real" where
  "get a idx = data a ! ravel (shape a) idx"

definition tabulate :: "nat list \<Rightarrow> (nat list \<Rightarrow> real) \<Rightarrow> ndarray" where
  "tabulate sh f = \<lparr>shape = sh, data = map f (indices sh)\<rparr>"

definition bind_e :: "error + 'a \<Rightarrow> ('a \<Rightarrow> error + 'b) \<Rightarrow> error + 'b" where
  "bind_e r f = (case r of Inl e \<Rightarrow> Inl e | Inr x \<Rightarrow> f x)"

text \<open>\<open>np.zeros(a.shape)\<close>, for the shape of an existing array.\<close>

definition zeros :: "nat list \<Rightarrow> ndarray" where
  "zeros sh = tabulate sh (\<lambda>_. 0)"

text \<open>
  \<open>np.zeros(dims)\<close> and \<open>np.random.randn(*dims)\<close> for integers \<open>dims\<close>: a negative
  extent is refused.  The random samples are read from a stream \<open>rnd\<close>, starting at
  position \<open>seed\<close>.
\<close>

definition np_zeros :: "int list \<Rightarrow> error + ndarray" where
  "np_zeros dims =
     (if \<exists>d \<in> set dims. d < 0 then Inl ValueError else Inr (zeros (map nat dims)))"

definition randn :: "(nat \<Rightarrow> real) \<Rightarrow> nat \<Rightarrow> int list \<Rightarrow> error + ndarray" where
  "randn rnd seed dims =
     (if \<exists>d \<in> set dims. d < 0 then Inl ValueError
      else Inr \<lparr>shape = map nat dims,
                data = map rnd [seed..<seed + prod_list (map nat dims)]\<rparr>)"

text \<open>
  \<open>np.reshape(a, newshape)\<close>: at most one extent may be \<open>-1\<close> and is then
  inferred; the element count must be kept.  The elements keep their row-major order.
\<close>

definition np_reshape :: "ndarray \<Rightarrow> int list \<Rightarrow> error + ndarray" where
  "np_reshape a newshape =
     (let size = int (prod_list (shape a)) in
      if \<exists>d \<in> set newshape. d < - 1 then Inl ValueError
      else case filter (\<lambda>d. d = - 1) newshape of
        [] \<Rightarrow>
          if prod_list newshape = size
          then Inr \<lparr>shape = map nat newshape, data = data a\<rparr>
          else Inl ValueError
      | [_] \<Rightarrow>
          (let p = prod_list (filter (\<lambda>d. d \<noteq> - 1) newshape) in
           if p \<noteq> 0 \<and> size mod p = 0
           then Inr \<lparr>shape = map (\<lambda>d. if d = - 1 then nat (size div p) else nat d) newshape,
                     data = data a\<rparr>
           else Inl ValueError)
      | _ \<Rightarrow> Inl ValueError)"


text \<open>
  \<open>a[i1, ..., in]\<close> for indices taken from \<open>range\<close>: the sub-array at these leading
  indices, or IndexError when there are too many indices or one is out of range.
\<close>

definition np_item :: "ndarray \<Rightarrow> nat list \<Rightarrow> error + ndarray" where
  "np_item a idxs =
     (if length idxs \<le> length (shape a) \<and> list_all2 (<) idxs (take (length idxs) (shape a))
      then Inr (tabulate (drop (length idxs) (shape a)) (\<lambda>rest. get a (idxs @ rest)))
      else Inl IndexError)"

text \<open>
  Broadcasting an array of shape \<open>vs\<close> to the shape \<open>sh\<close>: the shapes are aligned at
  their last axes, and an extent of \<open>vs\<close> must be that of \<open>sh\<close> or 1.  \<open>bidx\<close> is the
  index read in the smaller array for an index of the larger one.
\<close>

definition broadcastable :: "nat list \<Rightarrow> nat list \<Rightarrow> bool" where
  "broadcastable vs sh =
     (length vs \<le> length sh
      \<and> list_all2 (\<lambda>d t. d = t \<or> d = 1) vs (drop (length sh - length vs) sh))"

definition bidx :: "nat list \<Rightarrow> nat list \<Rightarrow> nat list" where
  "bidx vs idx = map2 (\<lambda>d i. if d = 1 then 0 else i) vs (drop (length idx - length vs) idx)"

text \<open>
  \<open>a[idxs] += v\<close>, once \<open>a[idxs]\<close> has been read: \<open>v\<close> is broadcast to the shape of the
  sub-array and added in place; ValueError when it cannot be broadcast.  With no index
  this is \<open>a += v\<close>.
\<close>

definition np_iadd_item :: "ndarray \<Rightarrow> nat list \<Rightarrow> ndarray \<Rightarrow> error + ndarray" where
  "np_iadd_item a idxs v =
     (let n = length idxs in
      if broadcastable (shape v) (drop n (shape a))
      then Inr (tabulate (shape a)
             (\<lambda>idx. if take n idx = idxs
                     then get a idx + get v (bidx (shape v) (drop n idx))
                     else get a idx))
      else Inl ValueError)"

text \<open>
  The statement \<open>a[idxs] += rhs\<close> in Python's order: the sub-array is read first
  (IndexError), then the right-hand side is evaluated, then the sum is stored.
\<close>

definition iadd_item :: "ndarray \<Rightarrow> nat list \<Rightarrow> error + ndarray \<Rightarrow> error + ndarray" where
  "iadd_item a idxs rhs =
     bind_e (np_item a idxs) (\<lambda>_. bind_e rhs (\<lambda>v. np_iadd_item a idxs v))"

text \<open>\<open>a + b\<close> with broadcasting of both operands to their common shape.\<close>

fun broadcast_rev :: "nat list \<Rightarrow> nat list \<Rightarrow> nat list option" where
  "broadcast_rev [] ys = Some ys"
| "broadcast_rev xs [] = Some xs"
| "broadcast_rev (x # xs) (y # ys) =
     (case broadcast_rev xs ys of
        None \<Rightarrow> None
      | Some zs \<Rightarrow>
          if x = y then Some (x # zs)
          else if x = 1 then Some (y # zs)
          else if y = 1 then Some (x # zs)
          else None)"

definition broadcast_shapes :: "nat list \<Rightarrow> nat list \<Rightarrow> nat list option" where
  "broadcast_shapes xs ys = map_option rev (broadcast_rev (rev xs) (rev ys))"

definition np_add :: "ndarray \<Rightarrow> ndarray \<Rightarrow> error + ndarray" where
  "np_add a b =
     (case broadcast_shapes (shape a) (shape b) of
        None \<Rightarrow> Inl ValueError
      | Some sh \<Rightarrow>
          Inr (tabulate sh (\<lambda>idx. get a (bidx (shape a) idx) + get b (bidx (shape b) idx))))"

text \<open>\<open>a.T\<close>: the axes reversed.\<close>

definition np_T :: "ndarray \<Rightarrow> ndarray" where
  "np_T a = tabulate (rev (shape a)) (\<lambda>idx. get a (rev idx))"

text \<open>\<open>np.sum(a, axis=0)\<close>.\<close>

definition np_sum0 :: "ndarray \<Rightarrow> error + ndarray" where
  "np_sum0 a =
     (case shape a of
        [] \<Rightarrow> Inl AxisError
      | n # sh \<Rightarrow> Inr (tabulate sh (\<lambda>idx. sum_list (map (\<lambda>b. get a (b # idx)) [0..<n]))))"

text \<open>
  \<open>np.dot(a, b)\<close>.  A 0-dimensional operand scales the other one.  Otherwise the last
  axis of \<open>a\<close> is contracted with the second-to-last axis of \<open>b\<close> (its only axis when
  \<open>b\<close> is 1-dimensional), and the two extents must agree.
\<close>

definition np_dot :: "ndarray \<Rightarrow> ndarray \<Rightarrow> error + ndarray" where
  "np_dot a b =
     (let sa = shape a; sb = shape b in
      if sa = [] then Inr (tabulate sb (\<lambda>idx. get a [] * get b idx))
      else if sb = [] then Inr (tabulate sa (\<lambda>idx. get a idx * get b []))
      else
        (let m = last sa;
             na = length sa - 1;
             m' = (if length sb = 1 then hd sb else sb ! (length sb - 2));
             rb = (if length sb = 1 then [] else butlast (butlast sb) @ [last sb])
         in if m \<noteq> m' then Inl ValueError
            else Inr (tabulate (butlast sa @ rb)
                   (\<lambda>idx. sum_list (map
                      (\<lambda>k. get a (take na idx @ [k])
                           * get b (if length sb = 1 then [k]
                                    else butlast (drop na idx) @ [k, last idx]))
                      [0..<m])))))"

text \<open>
  \<open>a[::s, ::s]\<close>: every \<open>s\<close>-th row and column, from the first one on for a positive
  step and from the last one back for a negative step.  A zero step is a ValueError, and
  an array with fewer than two axes cannot take two indices.
\<close>

definition slice_len :: "nat \<Rightarrow> int \<Rightarrow> nat" where
  "slice_len n s = nat ((int n + \<bar>s\<bar> - 1) div \<bar>s\<bar>)"

definition slice_pos :: "nat \<Rightarrow> int \<Rightarrow> nat \<Rightarrow> nat" where
  "slice_pos n s t = (if 0 < s then t * nat s else n - 1 - t * nat (- s))"

definition np_step2 :: "ndarray \<Rightarrow> int \<Rightarrow> error + ndarray" where
  "np_step2 a s =
     (case shape a of
        h # w # sh \<Rightarrow>
          if s = 0 then Inl ValueError
          else Inr (tabulate (slice_len h s # slice_len w s # sh)
                 (\<lambda>idx. get a (slice_pos h s (idx ! 0) # slice_pos w s (idx ! 1) # drop 2 idx)))
      | _ \<Rightarrow> Inl IndexError)"

text \<open>
  \<open>scipy.signal.correlate2d(in1, in2, "valid")\<close>.  Both operands must be 2-dimensional
  and one must be at least as large as the other along both axes.  When that is not
  \<open>in1\<close>, scipy swaps the operands and reverses the result along both axes.  For
  an operand with an empty axis the model applies the same formula.
\<close>

definition corr_valid :: "ndarray \<Rightarrow> ndarray \<Rightarrow> nat \<Rightarrow> nat \<Rightarrow> real" where
  "corr_valid a b y x =
     sum_list (map (\<lambda>u. sum_list (map (\<lambda>v. get a [y + u, x + v] * get b [u, v])
                                       [0..<shape b ! 1]))
                   [0..<shape b ! 0])"

definition correlate2d :: "ndarray \<Rightarrow> ndarray \<Rightarrow> error + ndarray" where
  "correlate2d in1 in2 =
     (case (shape in1, shape in2) of
        ([h1, w1], [h2, w2]) \<Rightarrow>
          if h2 \<le> h1 \<and> w2 \<le> w1
          then Inr (tabulate [h1 - h2 + 1, w1 - w2 + 1] (\<lambda>idx. corr_valid in1 in2 (idx ! 0) (idx ! 1)))
          else if h1 \<le> h2 \<and> w1 \<le> w2
          then Inr (tabulate [h2 - h1 + 1, w2 - w1 + 1]
                 (\<lambda>idx. corr_valid in2 in1 (h2 - h1 - idx ! 0) (w2 - w1 - idx ! 1)))
          else Inl ValueError
      | _ \<Rightarrow> Inl ValueError)"

text \<open>
  \<open>scipy.signal.convolve2d(in1, in2, "full")\<close>: every position where the operands
  overlap, the second one flipped.
\<close>

definition conv_full :: "ndarray \<Rightarrow> ndarray \<Rightarrow> nat \<Rightarrow> nat \<Rightarrow> real" where
  "conv_full a b y x =
     sum_list (map (\<lambda>u. sum_list (map
         (\<lambda>v. if u \<le> y \<and> y - u < shape b ! 0 \<and> v \<le> x \<and> x - v < shape b ! 1
               then get a [u, v] * get b [y - u, x - v] else 0)
         [0..<shape a ! 1]))
       [0..<shape a ! 0])"

definition convolve2d :: "ndarray \<Rightarrow> ndarray \<Rightarrow> error + ndarray" where
  "convolve2d in1 in2 =
     (case (shape in1, shape in2) of
        ([h1, w1], [h2, w2]) \<Rightarrow>
          Inr (tabulate [h1 + h2 - 1, w1 + w2 - 1] (\<lambda>idx. conv_full in1 in2 (idx ! 0) (idx ! 1)))
      | _ \<Rightarrow> Inl ValueError)"

text \<open>Python's \<open>==\<close> between a tuple and an integer: they are never equal.\<close>

definition tuple_eq_int :: "nat list \<Rightarrow> int \<Rightarrow> bool" where
  "tuple_eq_int t n = False"

text \<open>A \<open>for\<close> loop over a list of indices: it stops at the first exception.\<close>

fun for_each :: "nat list \<Rightarrow> (nat \<Rightarrow> 's \<Rightarrow> error option \<times> 's) \<Rightarrow> 's \<Rightarrow> error option \<times> 's" where
  "for_each [] body s = (None, s)"
| "for_each (i # is) body s =
     (case body i s of
        (Some e, s') \<Rightarrow> (Some e, s')
      | (None, s') \<Rightarrow> for_each is body s')"

section \<open>The shape helpers\<close>

text \<open>
  Modelled from the spec: \<open>dilate\<close> of \<open>helpers.py\<close>, which is not among the sources.
  It inserts \<open>stride - 1\<close> zeros between consecutive elements along each axis of a 2D
  array, so an axis of \<open>n > 0\<close> elements gets \<open>(n - 1) * stride + 1\<close>; a stride of 1 is
  the identity and a singleton stays a singleton.  The spec fixes it for 2D arrays and
  strides from 1 on only; elsewhere the model raises.
\<close>

definition dilate_len :: "nat \<Rightarrow> int \<Rightarrow> nat" where
  "dilate_len n s = (if n = 0 then 0 else (n - 1) * nat s + 1)"

definition dilate :: "ndarray \<Rightarrow> int \<Rightarrow> error + ndarray" where
  "dilate a s =
     (case shape a of
        [h, w] \<Rightarrow>
          if s < 1 then Inl ValueError
          else Inr (tabulate [dilate_len h s, dilate_len w s]
                 (\<lambda>idx. if idx ! 0 mod nat s = 0 \<and> idx ! 1 mod nat s = 0
                         then get a [idx ! 0 div nat s, idx ! 1 div nat s] else 0))
      | _ \<Rightarrow> Inl ValueError)"

text \<open>
  Modelled from the spec: \<open>pad_to_shape\<close> of \<open>helpers.py\<close>, which is not among the
  sources.  It returns a new array of exactly the target shape, with the values of the
  given array at the origin and zeros elsewhere, and fails with a ShapeError when the
  target is smaller than the array along an axis.  A target with another number of axes
  is refused as well.
\<close>

definition pad_to_shape :: "ndarray \<Rightarrow> int list \<Rightarrow> error + ndarray" where
  "pad_to_shape a target =
     (if list_all2 (\<lambda>d t. int d \<le> t) (shape a) target
      then Inr (tabulate (map nat target)
             (\<lambda>idx. if in_bounds (shape a) idx then get a idx else 0))
      else Inl ShapeError)"

section \<open>DenseLayer\<close>

text \<open>
  \<open>weights\<close> and \<open>biases\<close> exist from construction on; \<open>inputs\<close> and \<open>output\<close> are
  created by \<open>forward\<close>, the gradients by \<open>backward\<close>.
\<close>

record dense_layer =
  d_weights :: ndarray
  d_biases :: ndarray
  d_inputs :: "ndarray option"
  d_output :: "ndarray option"
  d_dweights :: "ndarray option"
  d_dbiases :: "ndarray option"
  d_dinputs :: "ndarray option"

definition scale :: "real \<Rightarrow> ndarray \<Rightarrow> ndarray" where
  "scale c a = a\<lparr>data := map ((*) c) (data a)\<rparr>"

definition dense_init :: "(nat \<Rightarrow> real) \<Rightarrow> int \<Rightarrow> int \<Rightarrow> error + dense_layer" where
  "dense_init rnd n_inputs n_neurons =
     bind_e (randn rnd 0 [n_inputs, n_neurons]) (\<lambda>w.
     bind_e (np_zeros [n_neurons]) (\<lambda>b.
       Inr \<lparr>d_weights = scale (1 / 10) w, d_biases = b, d_inputs = None, d_output = None,
            d_dweights = None, d_dbiases = None, d_dinputs = None\<rparr>))"

definition dense_forward :: "dense_layer \<Rightarrow> ndarray \<Rightarrow> error option \<times> dense_layer" where
  "dense_forward self inputs =
     (let self1 = self\<lparr>d_inputs := Some inputs\<rparr> in
      case bind_e (np_dot inputs (d_weights self1)) (\<lambda>p. np_add p (d_biases self1)) of
        Inl e \<Rightarrow> (Some e, self1)
      | Inr out \<Rightarrow> (None, self1\<lparr>d_output := Some out\<rparr>))"

definition dense_backward :: "dense_layer \<Rightarrow> ndarray \<Rightarrow> error option \<times> dense_layer" where
  "dense_backward self delta =
     (case d_inputs self of
        None \<Rightarrow> (Some AttributeError, self)
      | Some inputs \<Rightarrow>
          (case np_dot (np_T inputs) delta of
             Inl e \<Rightarrow> (Some e, self)
           | Inr dw \<Rightarrow>
               (let self1 = self\<lparr>d_dweights := Some dw\<rparr> in
                case np_sum0 delta of
                  Inl e \<Rightarrow> (Some e, self1)
                | Inr db \<Rightarrow>
                    (let self2 = self1\<lparr>d_dbiases := Some db\<rparr> in
                     case np_dot delta (np_T (d_weights self2)) of
                       Inl e \<Rightarrow> (Some e, self2)
                     | Inr di \<Rightarrow> (None, self2\<lparr>d_dinputs := Some di\<rparr>)))))"

section \<open>ConvolutionalLayer\<close>

text \<open>
  The configuration is kept as the integers Python stores.  \<open>inputs\<close>, \<open>output\<close> and the
  gradients do not exist before the first \<open>forward\<close> and \<open>backward\<close>.
\<close>

record conv_layer =
  c_input_channels :: int
  c_output_channels :: int
  c_kernel_size :: int
  c_stride :: int
  c_output_shape :: "int list"
  c_kernels_shape :: "int list"
  c_kernels :: ndarray
  c_biases :: ndarray
  c_inputs :: "ndarray option"
  c_output :: "ndarray option"
  c_dkernels :: "ndarray option"
  c_dbiases :: "ndarray option"
  c_dinputs :: "ndarray option"

text \<open>
  \<open>int(floor((input_height - kernel_size) / stride) + 1)\<close>.  Python divides the two
  integers as a float: a zero divisor raises ZeroDivisionError, and the quotient is the
  double nearest to the exact one.  While both operands are below \<open>2 ^ 52\<close> in
  magnitude, that double has the same floor as the exact quotient.  Beyond, the
  rounding can change the floor, and a quotient too large for a float raises
  OverflowError: there the floor of the float quotient is the parameter
  \<open>float_floor_div\<close>.
\<close>

definition exact_range :: "int \<Rightarrow> int \<Rightarrow> bool" where
  "exact_range a b = (\<bar>a\<bar> < 2 ^ 52 \<and> \<bar>b\<bar> < 2 ^ 52)"

definition output_size :: "(int \<Rightarrow> int \<Rightarrow> error + int) \<Rightarrow> int \<Rightarrow> int \<Rightarrow> int \<Rightarrow> error + int" where
  "output_size float_floor_div input_size kernel_size stride =
     (if stride = 0 then Inl ZeroDivisionError
      else if exact_range (input_size - kernel_size) stride
      then Inr ((input_size - kernel_size) div stride + 1)
      else bind_e (float_floor_div (input_size - kernel_size) stride) (\<lambda>q. Inr (q + 1)))"

text \<open>
  A float division for the examples: it refuses every quotient.  The examples stay in
  the exact range, where no float division is asked for.
\<close>

definition no_float_division :: "int \<Rightarrow> int \<Rightarrow> error + int" where
  "no_float_division a b = Inl OverflowError"

text \<open>
  The constructor.  The random samples and the float division beyond the exact range
  are parameters.
\<close>

definition conv_init ::
  "(nat \<Rightarrow> real) \<Rightarrow> (int \<Rightarrow> int \<Rightarrow> error + int) \<Rightarrow> int \<times> int \<times> int \<Rightarrow> int \<Rightarrow> int \<Rightarrow> int
     \<Rightarrow> error + conv_layer" where
  "conv_init rnd float_floor_div input_shape output_channels kernel_size stride =
     (case input_shape of (input_channels, input_height, input_width) \<Rightarrow>
        bind_e (output_size float_floor_div input_height kernel_size stride) (\<lambda>output_height.
        bind_e (output_size float_floor_div input_width kernel_size stride) (\<lambda>output_width.
          (let output_shape = [output_channels, output_height, output_width];
               kernels_shape = [output_channels, input_channels, kernel_size, kernel_size]
           in bind_e (randn rnd 0 kernels_shape) (\<lambda>kernels.
              bind_e (randn rnd (length (data kernels)) output_shape) (\<lambda>biases.
                Inr \<lparr>c_input_channels = input_channels, c_output_channels = output_channels,
                     c_kernel_size = kernel_size, c_stride = stride,
                     c_output_shape = output_shape, c_kernels_shape = kernels_shape,
                     c_kernels = kernels, c_biases = biases,
                     c_inputs = None, c_output = None,
                     c_dkernels = None, c_dbiases = None, c_dinputs = None\<rparr>))))))"

text \<open>
  One round of the innermost loop of \<open>forward\<close>:
  \<open>self.output[i, j] += correlate2d(self.inputs[i, k], self.kernels[j, k], "valid")[::stride, ::stride]\<close>.
\<close>

definition conv_forward_step :: "nat \<Rightarrow> nat \<Rightarrow> nat \<Rightarrow> conv_layer \<Rightarrow> error option \<times> conv_layer" where
  "conv_forward_step i j k self =
     (case (c_output self, c_inputs self) of
        (Some output, Some inputs) \<Rightarrow>
          (case iadd_item output [i, j]
                  (bind_e (np_item inputs [i, k]) (\<lambda>x.
                   bind_e (np_item (c_kernels self) [j, k]) (\<lambda>w.
                   bind_e (correlate2d x w) (\<lambda>c. np_step2 c (c_stride self))))) of
             Inl e \<Rightarrow> (Some e, self)
           | Inr output' \<Rightarrow> (None, self\<lparr>c_output := Some output'\<rparr>))
      | _ \<Rightarrow> (Some AttributeError, self))"

definition conv_forward :: "conv_layer \<Rightarrow> ndarray \<Rightarrow> error option \<times> conv_layer" where
  "conv_forward self inputs =
     (case shape inputs of
        [] \<Rightarrow> (Some IndexError, self)
      | n_samples # _ \<Rightarrow>
          (let self1 = self\<lparr>c_inputs := Some inputs\<rparr> in
           case np_zeros (int n_samples # c_output_shape self1) of
             Inl e \<Rightarrow> (Some e, self1)
           | Inr z \<Rightarrow>
               (let self2 = self1\<lparr>c_output := Some z\<rparr> in
                case np_iadd_item z [] (c_biases self2) of
                  Inl e \<Rightarrow> (Some e, self2)
                | Inr zb \<Rightarrow>
                    for_each [0..<n_samples] (\<lambda>i.
                      for_each [0..<nat (c_output_channels self)] (\<lambda>j.
                        for_each [0..<nat (c_input_channels self)] (\<lambda>k.
                          conv_forward_step i j k)))
                      (self2\<lparr>c_output := Some zb\<rparr>))))"

text \<open>
  The body of the innermost loop of \<open>backward\<close> for \<open>stride == 1\<close>: the kernel gradient
  takes the valid correlation of the input with \<open>delta\<close>, the input gradient the full
  convolution of \<open>delta\<close> with the kernel.
\<close>

definition conv_backward_direct ::
  "ndarray \<Rightarrow> nat \<Rightarrow> nat \<Rightarrow> nat \<Rightarrow> conv_layer \<Rightarrow> error option \<times> conv_layer" where
  "conv_backward_direct delta i j k self =
     (case (c_dkernels self, c_inputs self, c_dinputs self) of
        (Some dkernels, Some inputs, Some dinputs) \<Rightarrow>
          (case iadd_item dkernels [j, k]
                  (bind_e (np_item inputs [i, k]) (\<lambda>x.
                   bind_e (np_item delta [i, j]) (\<lambda>d. correlate2d x d))) of
             Inl e \<Rightarrow> (Some e, self)
           | Inr dkernels' \<Rightarrow>
               (let self1 = self\<lparr>c_dkernels := Some dkernels'\<rparr> in
                case iadd_item dinputs [i, k]
                       (bind_e (np_item delta [i, j]) (\<lambda>d.
                        bind_e (np_item (c_kernels self1) [j, k]) (\<lambda>w. convolve2d d w))) of
                  Inl e \<Rightarrow> (Some e, self1)
                | Inr dinputs' \<Rightarrow> (None, self1\<lparr>c_dinputs := Some dinputs'\<rparr>)))
      | _ \<Rightarrow> (Some AttributeError, self))"

text \<open>
  \<open>self.inputs[i, k].shape[0]\<close> and \<open>self.dkernels[j, k].shape[0]\<close>: the first extent
  of a sub-array, IndexError when it has no axis.
\<close>

definition shape0 :: "ndarray \<Rightarrow> error + int" where
  "shape0 a = (case shape a of [] \<Rightarrow> Inl IndexError | d # _ \<Rightarrow> Inr (int d))"

text \<open>
  The kernel gradient of one round for a stride other than 1 (lines 181 to 194).  The
  shape of the dilated gradient, a tuple, is compared with the integer
  \<open>input_shape - kernel_shape + 1\<close>.
\<close>

definition conv_dkernel ::
  "ndarray \<Rightarrow> ndarray \<Rightarrow> ndarray \<Rightarrow> ndarray \<Rightarrow> nat \<Rightarrow> nat \<Rightarrow> nat \<Rightarrow> error + ndarray" where
  "conv_dkernel delta_dilated inputs dkernels delta i j k =
     (let delta_dilated_shape = shape delta_dilated in
      bind_e (bind_e (np_item inputs [i, k]) shape0) (\<lambda>input_shape.
      bind_e (bind_e (np_item dkernels [j, k]) shape0) (\<lambda>kernel_shape.
        if tuple_eq_int delta_dilated_shape (input_shape - kernel_shape + 1)
        then bind_e (np_item inputs [i, k]) (\<lambda>x. correlate2d x delta_dilated)
        else
          (let new_delta_shape = [input_shape - kernel_shape + 1, input_shape - kernel_shape + 1]
           in bind_e (pad_to_shape delta_dilated new_delta_shape) (\<lambda>delta_dilated_padded.
              bind_e (np_item inputs [i, k]) (\<lambda>x. correlate2d x delta_dilated_padded))))))"

text \<open>
  The input gradient of one round for a stride other than 1 (lines 199 to 207): the
  full convolution, padded to the shape of \<open>dinputs[i, k]\<close> when its shape differs.
\<close>

definition conv_dinput ::
  "ndarray \<Rightarrow> ndarray \<Rightarrow> ndarray \<Rightarrow> nat \<Rightarrow> nat \<Rightarrow> nat \<Rightarrow> error + ndarray" where
  "conv_dinput delta_dilated kernels dinputs i j k =
     bind_e (bind_e (np_item kernels [j, k]) (\<lambda>w. convolve2d delta_dilated w)) (\<lambda>dinput.
     bind_e (np_item dinputs [i, k]) (\<lambda>target.
       if shape dinput = shape target
       then iadd_item dinputs [i, k] (Inr dinput)
       else bind_e (pad_to_shape dinput (map int (shape target))) (\<lambda>dinput_padded.
              iadd_item dinputs [i, k] (Inr dinput_padded))))"

text \<open>The body of the innermost loop of \<open>backward\<close> for a stride other than 1.\<close>

definition conv_backward_strided ::
  "ndarray \<Rightarrow> nat \<Rightarrow> nat \<Rightarrow> nat \<Rightarrow> conv_layer \<Rightarrow> error option \<times> conv_layer" where
  "conv_backward_strided delta i j k self =
     (case (c_inputs self, c_dkernels self, c_dinputs self) of
        (Some inputs, Some dkernels, Some dinputs) \<Rightarrow>
          (case bind_e (np_item delta [i, j]) (\<lambda>d. dilate d (c_stride self)) of
             Inl e \<Rightarrow> (Some e, self)
           | Inr delta_dilated \<Rightarrow>
               (case bind_e (conv_dkernel delta_dilated inputs dkernels delta i j k)
                       (\<lambda>dkernel. iadd_item dkernels [j, k] (Inr dkernel)) of
                  Inl e \<Rightarrow> (Some e, self)
                | Inr dkernels' \<Rightarrow>
                    (let self1 = self\<lparr>c_dkernels := Some dkernels'\<rparr> in
                     case conv_dinput delta_dilated (c_kernels self1) dinputs i j k of
                       Inl e \<Rightarrow> (Some e, self1)
                     | Inr dinputs' \<Rightarrow> (None, self1\<lparr>c_dinputs := Some dinputs'\<rparr>))))
      | _ \<Rightarrow> (Some AttributeError, self))"

definition conv_backward_step ::
  "ndarray \<Rightarrow> nat \<Rightarrow> nat \<Rightarrow> nat \<Rightarrow> conv_layer \<Rightarrow> error option \<times> conv_layer" where
  "conv_backward_step delta i j k self =
     (if c_stride self = 1 then conv_backward_direct delta i j k self
      else conv_backward_strided delta i j k self)"

text \<open>\<open>self.dbiases += delta[i]\<close>.\<close>

definition conv_backward_dbiases :: "ndarray \<Rightarrow> nat \<Rightarrow> conv_layer \<Rightarrow> error option \<times> conv_layer" where
  "conv_backward_dbiases delta i self =
     (case c_dbiases self of
        None \<Rightarrow> (Some AttributeError, self)
      | Some dbiases \<Rightarrow>
          (case bind_e (np_item delta [i]) (\<lambda>d. np_iadd_item dbiases [] d) of
             Inl e \<Rightarrow> (Some e, self)
           | Inr dbiases' \<Rightarrow> (None, self\<lparr>c_dbiases := Some dbiases'\<rparr>)))"

definition conv_backward :: "conv_layer \<Rightarrow> ndarray \<Rightarrow> error option \<times> conv_layer" where
  "conv_backward self delta =
     (let self1 = self\<lparr>c_dkernels := Some (zeros (shape (c_kernels self)))\<rparr>;
          self2 = self1\<lparr>c_dbiases := Some (zeros (shape (c_biases self1)))\<rparr>
      in case c_inputs self2 of
           None \<Rightarrow> (Some AttributeError, self2)
         | Some inputs \<Rightarrow>
             (let self3 = self2\<lparr>c_dinputs := Some (zeros (shape inputs))\<rparr> in
              case shape inputs of
                [] \<Rightarrow> (Some IndexError, self3)
              | n_samples # _ \<Rightarrow>
                  for_each [0..<n_samples] (\<lambda>i s.
                    case conv_backward_dbiases delta i s of
                      (Some e, s') \<Rightarrow> (Some e, s')
                    | (None, s') \<Rightarrow>
                        for_each [0..<nat (c_output_channels s')] (\<lambda>j.
                          for_each [0..<nat (c_input_channels s')] (\<lambda>k.
                            conv_backward_step delta i j k)) s')
                    self3))"

section \<open>ReshapeLayer\<close>

text \<open>
  \<open>input_shape\<close> is a tuple of integers, \<open>output_shape\<close> a single integer (it is
  placed, not unpacked, in the target shape).  \<open>output\<close> and \<open>dinputs\<close> do not
  exist until the first forward and backward call.
\<close>

record reshape_layer =
  r_input_shape :: "int list"
  r_output_shape :: int
  r_output :: "ndarray option"
  r_dinputs :: "ndarray option"

definition reshape_init :: "int list \<Rightarrow> int \<Rightarrow> reshape_layer" where
  "reshape_init input_shape output_shape =
     \<lparr>r_input_shape = input_shape, r_output_shape = output_shape,
      r_output = None, r_dinputs = None\<rparr>"

text \<open>A method returns the exception it raised, if any, and the layer as it is left.\<close>

definition reshape_forward :: "reshape_layer \<Rightarrow> ndarray \<Rightarrow> error option \<times> reshape_layer" where
  "reshape_forward self inputs =
     (case shape inputs of
        [] \<Rightarrow> (Some IndexError, self)
      | batch_size # _ \<Rightarrow>
          (case np_reshape inputs [int batch_size, r_output_shape self] of
             Inl e \<Rightarrow> (Some e, self)
           | Inr out \<Rightarrow> (None, self\<lparr>r_output := Some out\<rparr>)))"

definition reshape_backward :: "reshape_layer \<Rightarrow> ndarray \<Rightarrow> error option \<times> reshape_layer" where
  "reshape_backward self delta =
     (case shape delta of
        [] \<Rightarrow> (Some IndexError, self)
      | batch_size # _ \<Rightarrow>
          (case np_reshape delta (int batch_size # r_input_shape self) of
             Inl e \<Rightarrow> (Some e, self)
           | Inr d \<Rightarrow> (None, self\<lparr>r_dinputs := Some d\<rparr>)))"

section \<open>Predicates used to state the properties\<close>

text \<open>The configuration and the parameters of a convolutional layer.\<close>

definition conv_params_kept :: "conv_layer \<Rightarrow> conv_layer \<Rightarrow> bool" where
  "conv_params_kept s s' =
     (c_input_channels s' = c_input_channels s \<and> c_output_channels s' = c_output_channels s
      \<and> c_kernel_size s' = c_kernel_size s \<and> c_stride s' = c_stride s
      \<and> c_output_shape s' = c_output_shape s \<and> c_kernels_shape s' = c_kernels_shape s
      \<and> c_kernels s' = c_kernels s \<and> c_biases s' = c_biases s)"

text \<open>Everything but \<open>output\<close>, and everything but the three gradients.\<close>

definition conv_output_frame :: "conv_layer \<Rightarrow> conv_layer \<Rightarrow> bool" where
  "conv_output_frame s s' =
     (conv_params_kept s s' \<and> c_inputs s' = c_inputs s \<and> c_dkernels s' = c_dkernels s
      \<and> c_dbiases s' = c_dbiases s \<and> c_dinputs s' = c_dinputs s)"

definition conv_gradient_frame :: "conv_layer \<Rightarrow> conv_layer \<Rightarrow> bool" where
  "conv_gradient_frame s s' =
     (conv_params_kept s s' \<and> c_inputs s' = c_inputs s \<and> c_output s' = c_output s)"

text \<open>The three gradients exist and have the given shapes.\<close>

definition has_shape :: "ndarray option \<Rightarrow> nat list \<Rightarrow> bool" where
  "has_shape a sh = (case a of None \<Rightarrow> False | Some b \<Rightarrow> shape b = sh)"

definition conv_gradient_shapes :: "nat list \<Rightarrow> nat list \<Rightarrow> nat list \<Rightarrow> conv_layer \<Rightarrow> bool" where
  "conv_gradient_shapes ks bs xs s =
     (has_shape (c_dkernels s) ks \<and> has_shape (c_dbiases s) bs \<and> has_shape (c_dinputs s) xs)"

text \<open>The term one round of the loops adds to \<open>output[i, j, y, x]\<close>.\<close>

definition window_sum :: "ndarray \<Rightarrow> ndarray \<Rightarrow> nat \<Rightarrow> nat \<Rightarrow> nat \<Rightarrow> nat \<Rightarrow> nat \<Rightarrow> nat \<Rightarrow> nat \<Rightarrow> real" where
  "window_sum inputs kernels ksize s i j k y x =
     (\<Sum>u<ksize. \<Sum>v<ksize. get inputs [i, k, y * s + u, x * s + v] * get kernels [j, k, u, v])"

text \<open>
  \<open>out'\<close> is \<open>out\<close> with \<open>f idx\<close> added at every index: the effect of rounds of a loop
  on an accumulator array.
\<close>

definition accumulated :: "(nat list \<Rightarrow> real) \<Rightarrow> ndarray \<Rightarrow> ndarray \<Rightarrow> bool" where
  "accumulated f out out' =
     (shape out' = shape out
      \<and> (\<forall>idx. in_bounds (shape out) idx \<longrightarrow> get out' idx = get out idx + f idx))"




section \<open>Facts about the array runtime\<close>

lemma np_reshape_nat:
  assumes "prod_list sh = prod_list (shape a)"
  shows "np_reshape a (map int sh) = Inr \<lparr>shape = sh, data = data a\<rparr>"
proof -
  have nn: "\<forall>d \<in> set (map int sh). \<not> d < - 1" by auto
  have f: "filter (\<lambda>d. d = - 1) (map int sh) = []"
    by (auto simp: filter_empty_conv)
  have p: "prod_list (map int sh) = int (prod_list sh)"
    by (induction sh) simp_all
  have m: "map nat (map int sh) = sh"
    by (simp add: comp_def)
  show ?thesis
    using nn assms unfolding np_reshape_def Let_def f p m by auto
qed

lemma length_indices: "length (indices sh) = prod_list sh"
proof (induction sh)
  case Nil
  show ?case by simp
next
  case (Cons d ds)
  have "length (concat (map (\<lambda>i. map ((#) i) (indices ds)) [0..<d])) = d * prod_list ds"
    by (simp add: length_concat comp_def Cons.IH sum_list_triv)
  then show ?case by simp
qed

lemma upt_blocks: "concat (map (\<lambda>i. map (\<lambda>r. i * p + r) [0..<p]) [0..<d]) = [0..<d * p]"
proof (induction d)
  case 0
  show ?case by simp
next
  case (Suc d)
  have "map (\<lambda>r. d * p + r) [0..<p] = [d * p..<d * p + p]"
    by (simp add: map_add_upt add.commute)
  moreover have "[0..<d * p] @ [d * p..<d * p + p] = [0..<d * p + p]"
    by (metis le_add1 upt_add_eq_append zero_le)
  ultimately show ?case
    using Suc by (simp add: add.commute)
qed

lemma ravel_indices: "map (ravel sh) (indices sh) = [0..<prod_list sh]"
proof (induction sh)
  case Nil
  show ?case by simp
next
  case (Cons d ds)
  have "map (ravel (d # ds)) (indices (d # ds))
          = concat (map (\<lambda>i. map (\<lambda>r. i * prod_list ds + r) (map (ravel ds) (indices ds))) [0..<d])"
    by (simp add: map_concat comp_def)
  also have "\<dots> = [0..<d * prod_list ds]"
    unfolding Cons.IH by (rule upt_blocks)
  finally show ?case by simp
qed

lemma set_indices: "set (indices sh) = {idx. in_bounds sh idx}"
proof (induction sh)
  case Nil
  show ?case by (auto simp: in_bounds_def)
next
  case (Cons d ds)
  show ?case
  proof (intro set_eqI iffI)
    fix idx assume "idx \<in> set (indices (d # ds))"
    then show "idx \<in> {idx. in_bounds (d # ds) idx}"
      using Cons.IH by (auto simp: in_bounds_def)
  next
    fix idx assume "idx \<in> {idx. in_bounds (d # ds) idx}"
    then obtain i rest where "idx = i # rest" "i < d" "in_bounds ds rest"
      by (auto simp: in_bounds_def list_all2_Cons2)
    then show "idx \<in> set (indices (d # ds))"
      using Cons.IH by auto
  qed
qed

lemma in_bounds_nth:
  assumes "in_bounds sh idx"
  shows "ravel sh idx < prod_list sh" and "indices sh ! ravel sh idx = idx"
proof -
  from assms have "idx \<in> set (indices sh)" by (simp add: set_indices)
  then obtain p where p: "p < length (indices sh)" "indices sh ! p = idx"
    by (auto simp: in_set_conv_nth)
  have "map (ravel sh) (indices sh) ! p = [0..<prod_list sh] ! p"
    by (simp only: ravel_indices)
  with p have "ravel sh idx = p"
    by (simp add: length_indices)
  with p show "ravel sh idx < prod_list sh" and "indices sh ! ravel sh idx = idx"
    by (simp_all add: length_indices)
qed

lemma shape_tabulate [simp]: "shape (tabulate sh f) = sh"
  by (simp add: tabulate_def)

lemma wf_tabulate [simp]: "wf_array (tabulate sh f)"
  by (simp add: tabulate_def wf_array_def length_indices)

lemma get_tabulate: "in_bounds sh idx \<Longrightarrow> get (tabulate sh f) idx = f idx"
  using in_bounds_nth [of sh idx]
  by (simp add: get_def tabulate_def length_indices)

lemma tabulate_cong:
  "(\<And>idx. in_bounds sh idx \<Longrightarrow> f idx = g idx) \<Longrightarrow> tabulate sh f = tabulate sh g"
  by (simp add: tabulate_def set_indices)

lemma tabulate_get: "wf_array a \<Longrightarrow> tabulate (shape a) (get a) = a"
proof -
  assume wf: "wf_array a"
  have "map (get a) (indices (shape a)) = map ((!) (data a)) (map (ravel (shape a)) (indices (shape a)))"
    by (simp add: get_def comp_def)
  also have "\<dots> = map ((!) (data a)) [0..<length (data a)]"
    using wf by (simp only: ravel_indices wf_array_def)
  also have "\<dots> = data a"
    by (rule map_nth)
  finally show ?thesis
    by (simp add: tabulate_def)
qed

lemma ndarray_eqI:
  assumes "wf_array a" "wf_array b" "shape a = shape b"
    and "\<And>idx. in_bounds (shape a) idx \<Longrightarrow> get a idx = get b idx"
  shows "a = b"
proof -
  have "tabulate (shape a) (get a) = tabulate (shape a) (get b)"
    by (rule tabulate_cong) (rule assms(4))
  moreover have "tabulate (shape a) (get a) = a"
    using assms(1) by (rule tabulate_get)
  moreover have "tabulate (shape a) (get b) = b"
    using assms(2) tabulate_get [of b] by (simp add: assms(3))
  ultimately show ?thesis by simp
qed

section \<open>ReshapeLayer: the claims\<close>

text \<open>
  Claim C10.  \<open>ReshapeLayer.backward\<close> needs no earlier forward call: on a layer in
  any state, a well-formed \<open>delta\<close> of shape \<open>[batch, product(input_shape)]\<close> makes it
  return normally with \<open>dinputs\<close> set to \<open>delta\<close> reshaped to \<open>[batch, *input_shape]\<close>
  and nothing else changed; the result is the same whatever \<open>output\<close> holds.
\<close>

theorem reshape_backward_standalone:
  assumes "r_input_shape self = map int ishape"
    and "shape delta = [batch, prod_list ishape]"
  shows "reshape_backward self delta =
           (None, self\<lparr>r_dinputs := Some \<lparr>shape = batch # ishape, data = data delta\<rparr>\<rparr>)
         \<and> r_dinputs (snd (reshape_backward (self\<lparr>r_output := out\<rparr>) delta))
             = r_dinputs (snd (reshape_backward self delta))"
proof -
  have r: "np_reshape delta (int batch # map int ishape)
             = Inr \<lparr>shape = batch # ishape, data = data delta\<rparr>"
    using np_reshape_nat [of "batch # ishape" delta] assms(2) by simp
  show ?thesis
    using assms r by (simp add: reshape_backward_def)
qed

theorem reshape_backward_standalone_witness:
  "reshape_backward (reshape_init [1, 2] 2) \<lparr>shape = [1, 2], data = [5, 7]\<rparr>
     = (None, (reshape_init [1, 2] 2)\<lparr>r_dinputs := Some \<lparr>shape = [1, 1, 2], data = [5, 7]\<rparr>\<rparr>)"
  using reshape_backward_standalone
    [of "reshape_init [1, 2] 2" "[1, 2]" "\<lparr>shape = [1, 2], data = [5, 7]\<rparr>" 1]
  by (simp add: reshape_init_def)

text \<open>
  Claim C8.  For a layer whose \<open>output_shape\<close> is the product of its \<open>input_shape\<close>
  and a tensor \<open>x\<close> of shape \<open>[batch, *input_shape]\<close>, \<open>forward(x)\<close> returns normally,
  and \<open>backward\<close> on the output it stored returns normally with \<open>dinputs\<close> equal to
  \<open>x\<close>, in shape and in content.
\<close>

theorem reshape_round_trip:
  assumes "r_input_shape self = map int ishape"
    and "r_output_shape self = int (prod_list ishape)"
    and "shape x = batch # ishape"
  shows "\<exists>out self1.
           reshape_forward self x = (None, self1)
         \<and> r_output self1 = Some out
         \<and> shape out = [batch, prod_list ishape]
         \<and> reshape_backward self1 out = (None, self1\<lparr>r_dinputs := Some x\<rparr>)"
proof -
  let ?out = "\<lparr>shape = [batch, prod_list ishape], data = data x\<rparr>"
  let ?self1 = "self\<lparr>r_output := Some ?out\<rparr>"
  have "np_reshape x (map int [batch, prod_list ishape]) = Inr ?out"
    by (rule np_reshape_nat) (simp add: assms(3))
  then have fwd: "reshape_forward self x = (None, ?self1)"
    using assms by (simp add: reshape_forward_def)
  have "np_reshape ?out (map int (batch # ishape)) = Inr \<lparr>shape = batch # ishape, data = data ?out\<rparr>"
    by (rule np_reshape_nat) simp
  moreover have "\<lparr>shape = batch # ishape, data = data x\<rparr> = x"
    using assms(3) by simp
  ultimately have bwd: "reshape_backward ?self1 ?out = (None, ?self1\<lparr>r_dinputs := Some x\<rparr>)"
    using assms by (simp add: reshape_backward_def)
  show ?thesis
    using fwd bwd by auto
qed

theorem reshape_round_trip_witness:
  "\<exists>out self1.
     reshape_forward (reshape_init [2, 1] 2) \<lparr>shape = [1, 2, 1], data = [5, 7]\<rparr> = (None, self1)
   \<and> r_output self1 = Some out
   \<and> shape out = [1, 2]
   \<and> reshape_backward self1 out
       = (None, self1\<lparr>r_dinputs := Some \<lparr>shape = [1, 2, 1], data = [5, 7]\<rparr>\<rparr>)"
  using reshape_round_trip
    [of "reshape_init [2, 1] 2" "[2, 1]" "\<lparr>shape = [1, 2, 1], data = [5, 7]\<rparr>" 1]
  by (simp add: reshape_init_def)

section \<open>DenseLayer: the claims\<close>

lemma sum_list_upt_sum: "sum_list (map f [0..<n]) = (\<Sum>k<n. f k)"
  by (simp add: interv_sum_list_conv_sum_set_nat atLeast0LessThan)

lemma in_bounds2 [simp]: "in_bounds [h, w] [y, x] \<longleftrightarrow> y < h \<and> x < w"
  by (simp add: in_bounds_def)

lemma in_bounds1 [simp]: "in_bounds [n] [i] \<longleftrightarrow> i < n"
  by (simp add: in_bounds_def)

lemma in_bounds_length: "in_bounds sh idx \<Longrightarrow> length idx = length sh"
  by (simp add: in_bounds_def list_all2_lengthD)

lemma np_dot_matrix:
  assumes "shape a = [n, m]" and "shape b = [m, p]"
  shows "np_dot a b = Inr (tabulate [n, p]
           (\<lambda>idx. \<Sum>k<m. get a [idx ! 0, k] * get b [k, idx ! 1]))"
proof -
  have "tabulate [n, p] (\<lambda>idx. sum_list (map
           (\<lambda>k. get a (take 1 idx @ [k]) * get b (butlast (drop 1 idx) @ [k, last idx])) [0..<m]))
        = tabulate [n, p] (\<lambda>idx. \<Sum>k<m. get a [idx ! 0, k] * get b [k, idx ! 1])"
  proof (rule tabulate_cong)
    fix idx assume "in_bounds [n, p] idx"
    then obtain i j where "idx = [i, j]"
      by (auto simp: in_bounds_def list_all2_Cons2)
    then show "sum_list (map (\<lambda>k. get a (take 1 idx @ [k]) * get b (butlast (drop 1 idx) @ [k, last idx])) [0..<m])
        = (\<Sum>k<m. get a [idx ! 0, k] * get b [k, idx ! 1])"
      by (simp add: sum_list_upt_sum)
  qed
  then show ?thesis
    using assms by (simp add: np_dot_def Let_def)
qed

lemma np_T_matrix:
  assumes "shape a = [n, m]"
  shows "shape (np_T a) = [m, n]" and "i < m \<Longrightarrow> j < n \<Longrightarrow> get (np_T a) [i, j] = get a [j, i]"
  using assms by (simp_all add: np_T_def get_tabulate)

lemma np_sum0_matrix:
  assumes "shape a = [n, m]"
  shows "np_sum0 a = Inr (tabulate [m] (\<lambda>idx. \<Sum>b<n. get a [b, idx ! 0]))"
proof -
  have "tabulate [m] (\<lambda>idx. sum_list (map (\<lambda>b. get a (b # idx)) [0..<n]))
        = tabulate [m] (\<lambda>idx. \<Sum>b<n. get a [b, idx ! 0])"
  proof (rule tabulate_cong)
    fix idx assume "in_bounds [m] idx"
    then obtain i where "idx = [i]"
      by (auto simp: in_bounds_def list_all2_Cons2)
    then show "sum_list (map (\<lambda>b. get a (b # idx)) [0..<n]) = (\<Sum>b<n. get a [b, idx ! 0])"
      by (simp add: sum_list_upt_sum)
  qed
  then show ?thesis
    using assms by (simp add: np_sum0_def)
qed

lemma broadcast_matrix_vector: "broadcast_shapes [n, p] [p] = Some [n, p]"
  by (simp add: broadcast_shapes_def)

lemma np_add_matrix_vector:
  assumes "shape a = [n, p]" and "shape b = [p]"
  shows "\<exists>c. np_add a b = Inr c \<and> shape c = [n, p]
           \<and> (\<forall>i<n. \<forall>j<p. get c [i, j] = get a [i, j] + get b [j])"
proof -
  let ?c = "tabulate [n, p] (\<lambda>idx. get a (bidx (shape a) idx) + get b (bidx (shape b) idx))"
  have "np_add a b = Inr ?c"
    using assms by (simp add: np_add_def broadcast_matrix_vector)
  moreover have "get ?c [i, j] = get a [i, j] + get b [j]" if "i < n" "j < p" for i j
  proof -
    have "get ?c [i, j] = get a (bidx [n, p] [i, j]) + get b (bidx [p] [i, j])"
      using that assms by (simp add: get_tabulate)
    moreover have "get a (bidx [n, p] [i, j]) = get a [i, j]"
      using that assms by (auto simp: bidx_def get_def)
    moreover have "get b (bidx [p] [i, j]) = get b [j]"
      using that assms by (auto simp: bidx_def get_def)
    ultimately show ?thesis by simp
  qed
  ultimately show ?thesis by auto
qed


lemma dense_forward_ok:
  assumes "shape inputs = [batch, n_inputs]"
    and "shape (d_weights self) = [n_inputs, n_neurons]"
    and "shape (d_biases self) = [n_neurons]"
  shows "\<exists>out. dense_forward self inputs
             = (None, self\<lparr>d_inputs := Some inputs, d_output := Some out\<rparr>)
           \<and> shape out = [batch, n_neurons]
           \<and> (\<forall>b<batch. \<forall>j<n_neurons.
                 get out [b, j]
                   = (\<Sum>i<n_inputs. get inputs [b, i] * get (d_weights self) [i, j])
                     + get (d_biases self) [j])"
proof -
  let ?p = "tabulate [batch, n_neurons]
              (\<lambda>idx. \<Sum>k<n_inputs. get inputs [idx ! 0, k] * get (d_weights self) [k, idx ! 1])"
  have dot: "np_dot inputs (d_weights self) = Inr ?p"
    using assms(1,2) by (rule np_dot_matrix)
  obtain out where out: "np_add ?p (d_biases self) = Inr out" "shape out = [batch, n_neurons]"
    "\<forall>i<batch. \<forall>j<n_neurons. get out [i, j] = get ?p [i, j] + get (d_biases self) [j]"
    using np_add_matrix_vector [of ?p batch n_neurons "d_biases self"] assms(3) by auto
  have "dense_forward self inputs = (None, self\<lparr>d_inputs := Some inputs, d_output := Some out\<rparr>)"
    using dot out(1) by (simp add: dense_forward_def bind_e_def)
  moreover have "get out [b, j]
       = (\<Sum>i<n_inputs. get inputs [b, i] * get (d_weights self) [i, j]) + get (d_biases self) [j]"
    if "b < batch" "j < n_neurons" for b j
    using out(3) that by (simp add: get_tabulate)
  ultimately show ?thesis
    using out(2) by blast
qed

text \<open>
  Claim C7.  After \<open>forward\<close> on inputs of shape \<open>[batch, n_inputs]\<close>, \<open>backward\<close> with a
  \<open>delta\<close> of shape \<open>[batch, n_neurons]\<close> returns normally and sets \<open>dweights\<close> to the
  product of the transposed inputs with \<open>delta\<close> (shape \<open>[n_inputs, n_neurons]\<close>),
  \<open>dbiases\<close> to the sum of \<open>delta\<close> over the batch (shape \<open>[n_neurons]\<close>) and
  \<open>dinputs\<close> to the product of \<open>delta\<close> with the transposed weights (shape
  \<open>[batch, n_inputs]\<close>).
\<close>

theorem dense_backward_gradients:
  assumes "shape inputs = [batch, n_inputs]"
    and "shape (d_weights self) = [n_inputs, n_neurons]"
    and "shape (d_biases self) = [n_neurons]"
    and "shape delta = [batch, n_neurons]"
  shows "\<exists>self1 self2 dw db di.
           dense_forward self inputs = (None, self1)
         \<and> dense_backward self1 delta = (None, self2)
         \<and> d_dweights self2 = Some dw \<and> shape dw = [n_inputs, n_neurons]
         \<and> (\<forall>i<n_inputs. \<forall>j<n_neurons.
               get dw [i, j] = (\<Sum>b<batch. get inputs [b, i] * get delta [b, j]))
         \<and> d_dbiases self2 = Some db \<and> shape db = [n_neurons]
         \<and> (\<forall>j<n_neurons. get db [j] = (\<Sum>b<batch. get delta [b, j]))
         \<and> d_dinputs self2 = Some di \<and> shape di = [batch, n_inputs]
         \<and> (\<forall>b<batch. \<forall>i<n_inputs.
               get di [b, i] = (\<Sum>j<n_neurons. get delta [b, j] * get (d_weights self) [i, j]))"
proof -
  obtain out where fwd:
    "dense_forward self inputs = (None, self\<lparr>d_inputs := Some inputs, d_output := Some out\<rparr>)"
    using dense_forward_ok [OF assms(1-3)] by blast
  let ?self1 = "self\<lparr>d_inputs := Some inputs, d_output := Some out\<rparr>"
  let ?dw = "tabulate [n_inputs, n_neurons]
               (\<lambda>idx. \<Sum>k<batch. get (np_T inputs) [idx ! 0, k] * get delta [k, idx ! 1])"
  let ?db = "tabulate [n_neurons] (\<lambda>idx. \<Sum>b<batch. get delta [b, idx ! 0])"
  let ?di = "tabulate [batch, n_inputs]
               (\<lambda>idx. \<Sum>k<n_neurons. get delta [idx ! 0, k] * get (np_T (d_weights self)) [k, idx ! 1])"
  have dw: "np_dot (np_T inputs) delta = Inr ?dw"
    using np_T_matrix(1) [OF assms(1)] assms(4) by (rule np_dot_matrix)
  have db: "np_sum0 delta = Inr ?db"
    using assms(4) by (rule np_sum0_matrix)
  have di: "np_dot delta (np_T (d_weights self)) = Inr ?di"
    using assms(4) np_T_matrix(1) [OF assms(2)] by (rule np_dot_matrix)
  let ?self2 = "?self1\<lparr>d_dweights := Some ?dw, d_dbiases := Some ?db, d_dinputs := Some ?di\<rparr>"
  have bwd: "dense_backward ?self1 delta = (None, ?self2)"
    using dw db di by (simp add: dense_backward_def)
  have vw: "get ?dw [i, j] = (\<Sum>b<batch. get inputs [b, i] * get delta [b, j])"
    if "i < n_inputs" "j < n_neurons" for i j
    using that np_T_matrix(2) [OF assms(1)] by (simp add: get_tabulate)
  have vb: "get ?db [j] = (\<Sum>b<batch. get delta [b, j])" if "j < n_neurons" for j
    using that by (simp add: get_tabulate)
  have vi: "get ?di [b, i] = (\<Sum>j<n_neurons. get delta [b, j] * get (d_weights self) [i, j])"
    if "b < batch" "i < n_inputs" for b i
    using that np_T_matrix(2) [OF assms(2)] by (simp add: get_tabulate)
  show ?thesis
    using fwd bwd vw vb vi by (intro exI [of _ ?self1] exI [of _ ?self2] exI [of _ ?dw] exI [of _ ?db] exI [of _ ?di]) simp
qed

theorem dense_backward_gradients_witness:
  "\<exists>self1 self2 dw db di.
     dense_forward
       \<lparr>d_weights = \<lparr>shape = [2, 2], data = [1, 0, 0, 1]\<rparr>,
        d_biases = \<lparr>shape = [2], data = [0, 0]\<rparr>,
        d_inputs = None, d_output = None, d_dweights = None, d_dbiases = None,
        d_dinputs = None\<rparr>
       \<lparr>shape = [1, 2], data = [2, 3]\<rparr> = (None, self1)
   \<and> dense_backward self1 \<lparr>shape = [1, 2], data = [1, 1]\<rparr> = (None, self2)
   \<and> d_dweights self2 = Some dw \<and> shape dw = [2, 2]
   \<and> get dw [0, 0] = 2 \<and> get dw [0, 1] = 2 \<and> get dw [1, 0] = 3 \<and> get dw [1, 1] = 3
   \<and> d_dbiases self2 = Some db \<and> shape db = [2] \<and> get db [0] = 1 \<and> get db [1] = 1
   \<and> d_dinputs self2 = Some di \<and> shape di = [1, 2] \<and> get di [0, 0] = 1 \<and> get di [0, 1] = 1"
proof -
  let ?self = "\<lparr>d_weights = \<lparr>shape = [2, 2], data = [1, 0, 0, 1]\<rparr>,
        d_biases = \<lparr>shape = [2], data = [0, 0]\<rparr>,
        d_inputs = None, d_output = None, d_dweights = None, d_dbiases = None,
        d_dinputs = None\<rparr>"
  let ?x = "\<lparr>shape = [1, 2], data = [2, 3]\<rparr>"
  let ?delta = "\<lparr>shape = [1, 2], data = [1, 1]\<rparr>"
  obtain self1 self2 dw db di where r:
    "dense_forward ?self ?x = (None, self1)"
    "dense_backward self1 ?delta = (None, self2)"
    "d_dweights self2 = Some dw" "shape dw = [2, 2]"
    "\<forall>i<2. \<forall>j<2. get dw [i, j] = (\<Sum>b<1. get ?x [b, i] * get ?delta [b, j])"
    "d_dbiases self2 = Some db" "shape db = [2]"
    "\<forall>j<2. get db [j] = (\<Sum>b<1. get ?delta [b, j])"
    "d_dinputs self2 = Some di" "shape di = [1, 2]"
    "\<forall>b<1. \<forall>i<2. get di [b, i] = (\<Sum>j<2. get ?delta [b, j] * get (d_weights ?self) [i, j])"
    using dense_backward_gradients [of ?x 1 2 ?self 2 ?delta] by auto
  have "get dw [0, 0] = 2" "get dw [0, 1] = 2" "get dw [1, 0] = 3" "get dw [1, 1] = 3"
    using r(5) by (simp_all add: get_def)
  moreover have "get db [0] = 1" "get db [1] = 1"
    using r(8) by (simp_all add: get_def)
  moreover have "get di [0, 0] = 1" "get di [0, 1] = 1"
    using r(11) by (simp_all add: get_def lessThan_Suc numeral_2_eq_2)
  ultimately show ?thesis
    using r(1-4,6,7,9,10) by blast
qed

section \<open>ConvolutionalLayer: construction\<close>

lemma randn_Inl: "randn rnd seed dims = Inl e \<longleftrightarrow> (\<exists>d \<in> set dims. d < 0) \<and> e = ValueError"
  by (auto simp: randn_def)

lemma randn_Inr:
  "randn rnd seed dims = Inr a \<Longrightarrow> shape a = map nat dims \<and> wf_array a \<and> (\<forall>d \<in> set dims. 0 \<le> d)"
  by (auto simp: randn_def wf_array_def split: if_splits)




section \<open>What the methods leave unchanged\<close>

lemma for_each_invariant:
  assumes "\<And>i s. P s \<Longrightarrow> P (snd (body i s))" and "P s"
  shows "P (snd (for_each xs body s))"
  using assms(2)
proof (induction xs arbitrary: s)
  case Nil
  then show ?case by simp
next
  case (Cons i xs)
  obtain r s' where b: "body i s = (r, s')" by (cases "body i s")
  with assms(1) [OF Cons.prems, of i] have "P s'" by simp
  then show ?case
    using Cons.IH [of s'] b by (cases r) simp_all
qed

lemma conv_forward_step_frame:
  "conv_output_frame s0 s \<Longrightarrow> conv_output_frame s0 (snd (conv_forward_step i j k s))"
  by (simp add: conv_forward_step_def conv_output_frame_def conv_params_kept_def
      split: option.split sum.split)

lemma conv_forward_loops_frame:
  "conv_output_frame s0 s \<Longrightarrow>
   conv_output_frame s0 (snd (for_each is (\<lambda>i. for_each js (\<lambda>j. for_each ks (\<lambda>k.
      conv_forward_step i j k))) s))"
proof (rule for_each_invariant [where P = "conv_output_frame s0"])
  fix i s assume "conv_output_frame s0 s"
  then show "conv_output_frame s0 (snd (for_each js (\<lambda>j. for_each ks (\<lambda>k.
      conv_forward_step i j k)) s))"
  proof (rule for_each_invariant [where P = "conv_output_frame s0", rotated])
    fix j s assume "conv_output_frame s0 s"
    then show "conv_output_frame s0 (snd (for_each ks (\<lambda>k. conv_forward_step i j k) s))"
      by (rule for_each_invariant [where P = "conv_output_frame s0", rotated])
         (rule conv_forward_step_frame)
  qed
qed

lemma conv_forward_frame:
  "conv_params_kept s (snd (conv_forward s x))
   \<and> c_dkernels (snd (conv_forward s x)) = c_dkernels s
   \<and> c_dbiases (snd (conv_forward s x)) = c_dbiases s
   \<and> c_dinputs (snd (conv_forward s x)) = c_dinputs s"
proof (cases "shape x")
  case Nil
  then show ?thesis
    by (simp add: conv_forward_def conv_params_kept_def)
next
  case (Cons n sh)
  let ?s1 = "s\<lparr>c_inputs := Some x\<rparr>"
  have "conv_output_frame ?s1 (snd (conv_forward s x))"
  proof (cases "np_zeros (int n # c_output_shape s)")
    case (Inl e)
    then show ?thesis
      using Cons by (simp add: conv_forward_def conv_output_frame_def conv_params_kept_def)
  next
    case (Inr z)
    show ?thesis
    proof (cases "np_iadd_item z [] (c_biases s)")
      case (Inl e)
      then show ?thesis
        using Cons Inr by (simp add: conv_forward_def conv_output_frame_def conv_params_kept_def)
    next
      case zb: (Inr zb)
      have "conv_output_frame ?s1 (?s1\<lparr>c_output := Some z, c_output := Some zb\<rparr>)"
        by (simp add: conv_output_frame_def conv_params_kept_def)
      from conv_forward_loops_frame [OF this]
      show ?thesis
        using Cons Inr zb by (simp add: conv_forward_def)
    qed
  qed
  then show ?thesis
    by (simp add: conv_output_frame_def conv_params_kept_def)
qed

lemma conv_backward_direct_frame:
  "conv_gradient_frame s0 s \<Longrightarrow> conv_gradient_frame s0 (snd (conv_backward_direct delta i j k s))"
  by (simp add: conv_backward_direct_def conv_gradient_frame_def conv_params_kept_def Let_def
      split: option.split sum.split)

lemma conv_backward_strided_frame:
  "conv_gradient_frame s0 s \<Longrightarrow> conv_gradient_frame s0 (snd (conv_backward_strided delta i j k s))"
  by (simp add: conv_backward_strided_def conv_gradient_frame_def conv_params_kept_def Let_def
      split: option.split sum.split)

lemma conv_backward_step_frame:
  "conv_gradient_frame s0 s \<Longrightarrow> conv_gradient_frame s0 (snd (conv_backward_step delta i j k s))"
  by (simp add: conv_backward_step_def conv_backward_direct_frame conv_backward_strided_frame)

lemma conv_backward_dbiases_frame:
  "conv_gradient_frame s0 s \<Longrightarrow> conv_gradient_frame s0 (snd (conv_backward_dbiases delta i s))"
  by (simp add: conv_backward_dbiases_def conv_gradient_frame_def conv_params_kept_def
      split: option.split sum.split)

lemma conv_backward_sample_frame:
  assumes "conv_gradient_frame s0 s"
  shows "conv_gradient_frame s0 (snd (case conv_backward_dbiases delta i s of
            (Some e, s') \<Rightarrow> (Some e, s')
          | (None, s') \<Rightarrow>
              for_each (js s') (\<lambda>j. for_each (ks s') (\<lambda>k. conv_backward_step delta i j k)) s'))"
proof -
  obtain r s1 where d: "conv_backward_dbiases delta i s = (r, s1)"
    by (cases "conv_backward_dbiases delta i s")
  have s1: "conv_gradient_frame s0 s1"
    using conv_backward_dbiases_frame [OF assms, of delta i] d by simp
  show ?thesis
  proof (cases r)
    case (Some e)
    then show ?thesis using d s1 by simp
  next
    case None
    have "conv_gradient_frame s0
            (snd (for_each (js s1) (\<lambda>j. for_each (ks s1) (\<lambda>k. conv_backward_step delta i j k)) s1))"
      using s1
    proof (rule for_each_invariant [where P = "conv_gradient_frame s0", rotated])
      fix j s assume "conv_gradient_frame s0 s"
      then show "conv_gradient_frame s0
                   (snd (for_each (ks s1) (\<lambda>k. conv_backward_step delta i j k) s))"
        by (rule for_each_invariant [where P = "conv_gradient_frame s0", rotated])
           (rule conv_backward_step_frame)
    qed
    then show ?thesis using d None by simp
  qed
qed

lemma conv_backward_frame:
  "conv_params_kept s (snd (conv_backward s delta))
   \<and> c_inputs (snd (conv_backward s delta)) = c_inputs s
   \<and> c_output (snd (conv_backward s delta)) = c_output s"
proof -
  let ?s2 = "s\<lparr>c_dkernels := Some (zeros (shape (c_kernels s))),
               c_dbiases := Some (zeros (shape (c_biases s)))\<rparr>"
  have "conv_gradient_frame s (snd (conv_backward s delta))"
  proof (cases "c_inputs s")
    case None
    then show ?thesis
      by (simp add: conv_backward_def conv_gradient_frame_def conv_params_kept_def)
  next
    case (Some inputs)
    let ?s3 = "?s2\<lparr>c_dinputs := Some (zeros (shape inputs))\<rparr>"
    have s3: "conv_gradient_frame s ?s3"
      by (simp add: conv_gradient_frame_def conv_params_kept_def)
    show ?thesis
    proof (cases "shape inputs")
      case Nil
      then show ?thesis
        using Some by (simp add: conv_backward_def conv_gradient_frame_def conv_params_kept_def)
    next
      case (Cons n sh)
      have "conv_gradient_frame s (snd (for_each [0..<n] (\<lambda>i s.
              case conv_backward_dbiases delta i s of
                (Some e, s') \<Rightarrow> (Some e, s')
              | (None, s') \<Rightarrow>
                  for_each [0..<nat (c_output_channels s')] (\<lambda>j.
                    for_each [0..<nat (c_input_channels s')] (\<lambda>k.
                      conv_backward_step delta i j k)) s') ?s3))"
        using s3
      proof (rule for_each_invariant [where P = "conv_gradient_frame s", rotated])
        fix i s1 assume a: "conv_gradient_frame s s1"
        show "conv_gradient_frame s
               (snd (case conv_backward_dbiases delta i s1 of
                   (Some e, s') \<Rightarrow> (Some e, s')
                 | (None, s') \<Rightarrow>
                     for_each [0..<nat (c_output_channels s')] (\<lambda>j.
                       for_each [0..<nat (c_input_channels s')] (\<lambda>k.
                         conv_backward_step delta i j k)) s'))"
          by (rule conv_backward_sample_frame
                [OF a, where js = "\<lambda>t. [0..<nat (c_output_channels t)]"
                         and ks = "\<lambda>t. [0..<nat (c_input_channels t)]"])
      qed
      then show ?thesis
        using Some Cons by (simp add: conv_backward_def)
    qed
  qed
  then show ?thesis
    by (simp add: conv_gradient_frame_def)
qed

lemma dense_forward_frame:
  "d_weights (snd (dense_forward s x)) = d_weights s
   \<and> d_biases (snd (dense_forward s x)) = d_biases s
   \<and> d_dweights (snd (dense_forward s x)) = d_dweights s
   \<and> d_dbiases (snd (dense_forward s x)) = d_dbiases s
   \<and> d_dinputs (snd (dense_forward s x)) = d_dinputs s"
  by (simp add: dense_forward_def Let_def split: sum.split)

lemma dense_forward_raised:
  "dense_forward s x = (Some e, s') \<Longrightarrow> s' = s\<lparr>d_inputs := Some x\<rparr>"
  by (auto simp: dense_forward_def Let_def split: sum.splits)

lemma dense_backward_frame:
  "d_weights (snd (dense_backward s delta)) = d_weights s
   \<and> d_biases (snd (dense_backward s delta)) = d_biases s
   \<and> d_inputs (snd (dense_backward s delta)) = d_inputs s
   \<and> d_output (snd (dense_backward s delta)) = d_output s"
  by (simp add: dense_backward_def Let_def split: option.split sum.split)

lemma dense_backward_raised:
  "dense_backward s delta = (Some e, s') \<Longrightarrow> d_dinputs s' = d_dinputs s"
  by (auto simp: dense_backward_def Let_def split: option.splits sum.splits)

lemma reshape_forward_raised: "reshape_forward s x = (Some e, s') \<Longrightarrow> s' = s"
  by (auto simp: reshape_forward_def split: list.splits sum.splits)

lemma reshape_backward_raised: "reshape_backward s delta = (Some e, s') \<Longrightarrow> s' = s"
  by (auto simp: reshape_backward_def split: list.splits sum.splits)

text \<open>
  Claim C9.  No forward or backward call changes the parameters of its layer, on a
  normal return or on an exception: the weights and biases of a dense layer and the
  kernels and biases of a convolutional layer, with its configuration, are the same
  after the call as before.
\<close>

theorem parameters_unchanged:
  "d_weights (snd (dense_forward d x)) = d_weights d
   \<and> d_biases (snd (dense_forward d x)) = d_biases d
   \<and> d_weights (snd (dense_backward d delta)) = d_weights d
   \<and> d_biases (snd (dense_backward d delta)) = d_biases d
   \<and> c_kernels (snd (conv_forward c x)) = c_kernels c
   \<and> c_biases (snd (conv_forward c x)) = c_biases c
   \<and> c_kernels (snd (conv_backward c delta)) = c_kernels c
   \<and> c_biases (snd (conv_backward c delta)) = c_biases c
   \<and> conv_params_kept c (snd (conv_forward c x))
   \<and> conv_params_kept c (snd (conv_backward c delta))"
  using dense_forward_frame [of d x] dense_backward_frame [of d delta]
    conv_forward_frame [of c x] conv_backward_frame [of c delta]
  by (simp add: conv_params_kept_def)

section \<open>A call that raises\<close>

text \<open>
  Claim C6, as the code has it.  A call that raises is not rolled back: the assignments
  made before the failure stay.  What is certain after an exception: a failing
  \<open>DenseLayer.forward\<close> has replaced \<open>inputs\<close> by the new batch and nothing else; a
  failing \<open>DenseLayer.backward\<close> has kept the parameters, \<open>inputs\<close>, \<open>output\<close> and
  \<open>dinputs\<close>; a failing \<open>ConvolutionalLayer.forward\<close> has kept the parameters, the
  configuration and the three gradients; a failing \<open>ConvolutionalLayer.backward\<close> has
  kept the parameters, the configuration, \<open>inputs\<close> and \<open>output\<close>; a failing
  \<open>ReshapeLayer\<close> call has changed nothing.
\<close>

theorem raised_call_state:
  "(dense_forward d x = (Some e, d') \<longrightarrow> d' = d\<lparr>d_inputs := Some x\<rparr>)
   \<and> (dense_backward d delta = (Some e, d') \<longrightarrow>
         d_weights d' = d_weights d \<and> d_biases d' = d_biases d \<and> d_inputs d' = d_inputs d
       \<and> d_output d' = d_output d \<and> d_dinputs d' = d_dinputs d)
   \<and> (conv_forward c x = (Some e, c') \<longrightarrow>
         conv_params_kept c c' \<and> c_dkernels c' = c_dkernels c \<and> c_dbiases c' = c_dbiases c
       \<and> c_dinputs c' = c_dinputs c)
   \<and> (conv_backward c delta = (Some e, c') \<longrightarrow>
         conv_params_kept c c' \<and> c_inputs c' = c_inputs c \<and> c_output c' = c_output c)
   \<and> (reshape_forward r x = (Some e, r') \<longrightarrow> r' = r)
   \<and> (reshape_backward r delta = (Some e, r') \<longrightarrow> r' = r)"
proof (intro conjI impI)
  assume "dense_forward d x = (Some e, d')"
  then show "d' = d\<lparr>d_inputs := Some x\<rparr>" by (rule dense_forward_raised)
next
  assume a: "dense_backward d delta = (Some e, d')"
  then show "d_dinputs d' = d_dinputs d" by (rule dense_backward_raised)
  show "d_weights d' = d_weights d" "d_biases d' = d_biases d" "d_inputs d' = d_inputs d"
    "d_output d' = d_output d"
    using dense_backward_frame [of d delta] a by simp_all
next
  assume a: "conv_forward c x = (Some e, c')"
  show "conv_params_kept c c'" "c_dkernels c' = c_dkernels c" "c_dbiases c' = c_dbiases c"
    "c_dinputs c' = c_dinputs c"
    using conv_forward_frame [of c x] a by simp_all
next
  assume a: "conv_backward c delta = (Some e, c')"
  show "conv_params_kept c c'" "c_inputs c' = c_inputs c" "c_output c' = c_output c"
    using conv_backward_frame [of c delta] a by simp_all
next
  assume "reshape_forward r x = (Some e, r')"
  then show "r' = r" by (rule reshape_forward_raised)
next
  assume "reshape_backward r delta = (Some e, r')"
  then show "r' = r" by (rule reshape_backward_raised)
qed

theorem raised_call_state_witness:
  "dense_forward
     \<lparr>d_weights = \<lparr>shape = [2, 2], data = [1, 0, 0, 1]\<rparr>,
      d_biases = \<lparr>shape = [2], data = [0, 0]\<rparr>,
      d_inputs = None, d_output = None,
      d_dweights = None, d_dbiases = None, d_dinputs = None\<rparr>
     \<lparr>shape = [1, 3], data = [2, 3, 4]\<rparr>
   = (Some ValueError,
     \<lparr>d_weights = \<lparr>shape = [2, 2], data = [1, 0, 0, 1]\<rparr>,
      d_biases = \<lparr>shape = [2], data = [0, 0]\<rparr>,
      d_inputs = Some \<lparr>shape = [1, 3], data = [2, 3, 4]\<rparr>, d_output = None,
      d_dweights = None, d_dbiases = None, d_dinputs = None\<rparr>)
   \<and> dense_backward
     \<lparr>d_weights = \<lparr>shape = [2, 2], data = [1, 0, 0, 1]\<rparr>,
      d_biases = \<lparr>shape = [2], data = [0, 0]\<rparr>,
      d_inputs = None, d_output = None,
      d_dweights = None, d_dbiases = None, d_dinputs = None\<rparr>
     \<lparr>shape = [1, 3], data = [2, 3, 4]\<rparr>
   = (Some AttributeError,
     \<lparr>d_weights = \<lparr>shape = [2, 2], data = [1, 0, 0, 1]\<rparr>,
      d_biases = \<lparr>shape = [2], data = [0, 0]\<rparr>,
      d_inputs = None, d_output = None,
      d_dweights = None, d_dbiases = None, d_dinputs = None\<rparr>)
   \<and> conv_forward
     \<lparr>c_input_channels = 1, c_output_channels = 1, c_kernel_size = 1, c_stride = 1,
      c_output_shape = [1, 1, 1], c_kernels_shape = [1, 1, 1, 1],
      c_kernels = \<lparr>shape = [1, 1, 1, 1], data = [2]\<rparr>,
      c_biases = \<lparr>shape = [1, 1, 1], data = [0]\<rparr>,
      c_inputs = None, c_output = None, c_dkernels = None, c_dbiases = None,
      c_dinputs = None\<rparr>
     \<lparr>shape = [], data = [5]\<rparr>
   = (Some IndexError,
     \<lparr>c_input_channels = 1, c_output_channels = 1, c_kernel_size = 1, c_stride = 1,
      c_output_shape = [1, 1, 1], c_kernels_shape = [1, 1, 1, 1],
      c_kernels = \<lparr>shape = [1, 1, 1, 1], data = [2]\<rparr>,
      c_biases = \<lparr>shape = [1, 1, 1], data = [0]\<rparr>,
      c_inputs = None, c_output = None, c_dkernels = None, c_dbiases = None,
      c_dinputs = None\<rparr>)
   \<and> conv_backward
     \<lparr>c_input_channels = 1, c_output_channels = 1, c_kernel_size = 1, c_stride = 1,
      c_output_shape = [1, 1, 1], c_kernels_shape = [1, 1, 1, 1],
      c_kernels = \<lparr>shape = [1, 1, 1, 1], data = [2]\<rparr>,
      c_biases = \<lparr>shape = [1, 1, 1], data = [0]\<rparr>,
      c_inputs = None, c_output = None, c_dkernels = None, c_dbiases = None,
      c_dinputs = None\<rparr>
     \<lparr>shape = [], data = [5]\<rparr>
   = (Some AttributeError,
     \<lparr>c_input_channels = 1, c_output_channels = 1, c_kernel_size = 1, c_stride = 1,
      c_output_shape = [1, 1, 1], c_kernels_shape = [1, 1, 1, 1],
      c_kernels = \<lparr>shape = [1, 1, 1, 1], data = [2]\<rparr>,
      c_biases = \<lparr>shape = [1, 1, 1], data = [0]\<rparr>,
      c_inputs = None, c_output = None, c_dkernels = Some \<lparr>shape = [1, 1, 1, 1], data = [0]\<rparr>,
      c_dbiases = Some \<lparr>shape = [1, 1, 1], data = [0]\<rparr>,
      c_dinputs = None\<rparr>)
   \<and> reshape_forward (reshape_init [2] 2) \<lparr>shape = [1, 3], data = [2, 3, 4]\<rparr> = (Some ValueError, (reshape_init [2] 2))
   \<and> reshape_backward (reshape_init [2] 2) \<lparr>shape = [], data = [5]\<rparr> = (Some IndexError, (reshape_init [2] 2))"
proof -
  let ?d = "\<lparr>d_weights = \<lparr>shape = [2, 2], data = [1, 0, 0, 1]\<rparr>,
      d_biases = \<lparr>shape = [2], data = [0, 0]\<rparr>,
      d_inputs = None, d_output = None,
      d_dweights = None, d_dbiases = None, d_dinputs = None\<rparr>"
  let ?c = "\<lparr>c_input_channels = 1, c_output_channels = 1, c_kernel_size = 1, c_stride = 1,
      c_output_shape = [1, 1, 1], c_kernels_shape = [1, 1, 1, 1],
      c_kernels = \<lparr>shape = [1, 1, 1, 1], data = [2]\<rparr>,
      c_biases = \<lparr>shape = [1, 1, 1], data = [0]\<rparr>,
      c_inputs = None, c_output = None, c_dkernels = None, c_dbiases = None,
      c_dinputs = None\<rparr>"
  let ?c1 = "\<lparr>c_input_channels = 1, c_output_channels = 1, c_kernel_size = 1, c_stride = 1,
      c_output_shape = [1, 1, 1], c_kernels_shape = [1, 1, 1, 1],
      c_kernels = \<lparr>shape = [1, 1, 1, 1], data = [2]\<rparr>,
      c_biases = \<lparr>shape = [1, 1, 1], data = [0]\<rparr>,
      c_inputs = None, c_output = None, c_dkernels = Some \<lparr>shape = [1, 1, 1, 1], data = [0]\<rparr>,
      c_dbiases = Some \<lparr>shape = [1, 1, 1], data = [0]\<rparr>,
      c_dinputs = None\<rparr>"
  let ?x3 = "\<lparr>shape = [1, 3], data = [2, 3, 4]\<rparr>"
  let ?x0 = "\<lparr>shape = [], data = [5]\<rparr>"
  have df: "dense_forward ?d ?x3 = (Some ValueError, ?d\<lparr>d_inputs := Some ?x3\<rparr>)"
    by code_simp
  have db: "dense_backward ?d ?x3 = (Some AttributeError, ?d)"
    by code_simp
  have cf: "conv_forward ?c ?x0 = (Some IndexError, ?c)"
    by code_simp
  have cb: "conv_backward ?c ?x0 = (Some AttributeError, ?c1)"
    by code_simp
  have rf: "reshape_forward (reshape_init [2] 2) ?x3 = (Some ValueError, (reshape_init [2] 2))"
    by code_simp
  have rb: "reshape_backward (reshape_init [2] 2) ?x0 = (Some IndexError, (reshape_init [2] 2))"
    by code_simp
  note t = raised_call_state
  have "?d\<lparr>d_inputs := Some ?x3\<rparr> = ?d\<lparr>d_inputs := Some ?x3\<rparr>"
    using t [where d = ?d and x = ?x3 and e = ValueError and d' = "?d\<lparr>d_inputs := Some ?x3\<rparr>"] df
    by simp
  moreover have "d_dinputs ?d = d_dinputs ?d"
    using t [where d = ?d and delta = ?x3 and e = AttributeError and d' = ?d] db by simp
  moreover have "conv_params_kept ?c ?c"
    using t [where c = ?c and x = ?x0 and e = IndexError and c' = ?c] cf by simp
  moreover have "conv_params_kept ?c ?c1"
    using t [where c = ?c and delta = ?x0 and e = AttributeError and c' = ?c1] cb by simp
  moreover have "(reshape_init [2] 2) = (reshape_init [2] 2)"
    using t [where r = "(reshape_init [2] 2)" and x = ?x3 and e = ValueError and r' = "(reshape_init [2] 2)"] rf by simp
  moreover have "(reshape_init [2] 2) = (reshape_init [2] 2)"
    using t [where r = "(reshape_init [2] 2)" and delta = ?x0 and e = IndexError and r' = "(reshape_init [2] 2)"] rb by simp
  ultimately show ?thesis
    using df db cf cb rf rb by simp
qed

text \<open>
  Claim C6 as stated fails.  A dense layer with 2 inputs holds the inputs and the
  output of an earlier forward call; a forward call on a batch with 3 columns raises
  ValueError in the matrix product, and the layer is left with the new \<open>inputs\<close> beside
  the old \<open>output\<close>.
\<close>

theorem dense_forward_half_updated:
  "dense_forward
     \<lparr>d_weights = \<lparr>shape = [2, 2], data = [1, 0, 0, 1]\<rparr>,
      d_biases = \<lparr>shape = [2], data = [0, 0]\<rparr>,
      d_inputs = Some \<lparr>shape = [1, 2], data = [2, 3]\<rparr>,
      d_output = Some \<lparr>shape = [1, 2], data = [2, 3]\<rparr>,
      d_dweights = None, d_dbiases = None, d_dinputs = None\<rparr>
     \<lparr>shape = [1, 3], data = [2, 3, 4]\<rparr>
   = (Some ValueError,
      \<lparr>d_weights = \<lparr>shape = [2, 2], data = [1, 0, 0, 1]\<rparr>,
       d_biases = \<lparr>shape = [2], data = [0, 0]\<rparr>,
       d_inputs = Some \<lparr>shape = [1, 3], data = [2, 3, 4]\<rparr>,
       d_output = Some \<lparr>shape = [1, 2], data = [2, 3]\<rparr>,
       d_dweights = None, d_dbiases = None, d_dinputs = None\<rparr>)"
  by code_simp

section \<open>The shapes of the gradients\<close>

lemma np_iadd_item_shape: "np_iadd_item a idxs v = Inr a' \<Longrightarrow> shape a' = shape a"
  by (auto simp: np_iadd_item_def Let_def split: if_splits)

lemma iadd_item_shape: "iadd_item a idxs rhs = Inr a' \<Longrightarrow> shape a' = shape a"
  by (auto simp: iadd_item_def bind_e_def np_iadd_item_shape split: sum.splits)

lemma conv_backward_direct_shapes:
  "conv_gradient_shapes ks bs xs s \<Longrightarrow>
   conv_gradient_shapes ks bs xs (snd (conv_backward_direct delta i j k s))"
  by (auto simp: conv_backward_direct_def conv_gradient_shapes_def has_shape_def Let_def
      dest: iadd_item_shape split: option.splits sum.splits)

lemma conv_dinput_shape:
  "conv_dinput dd kernels dinputs i j k = Inr a' \<Longrightarrow> shape a' = shape dinputs"
  by (auto simp: conv_dinput_def bind_e_def dest: iadd_item_shape split: sum.splits if_splits)

lemma conv_backward_strided_shapes:
  "conv_gradient_shapes ks bs xs s \<Longrightarrow>
   conv_gradient_shapes ks bs xs (snd (conv_backward_strided delta i j k s))"
  by (auto simp: conv_backward_strided_def conv_gradient_shapes_def has_shape_def Let_def bind_e_def
      dest: iadd_item_shape conv_dinput_shape split: option.splits sum.splits)

lemma conv_backward_step_shapes:
  "conv_gradient_shapes ks bs xs s \<Longrightarrow>
   conv_gradient_shapes ks bs xs (snd (conv_backward_step delta i j k s))"
  by (simp add: conv_backward_step_def conv_backward_direct_shapes conv_backward_strided_shapes)

lemma conv_backward_dbiases_shapes:
  "conv_gradient_shapes ks bs xs s \<Longrightarrow>
   conv_gradient_shapes ks bs xs (snd (conv_backward_dbiases delta i s))"
  by (auto simp: conv_backward_dbiases_def conv_gradient_shapes_def has_shape_def bind_e_def
      dest: np_iadd_item_shape split: option.splits sum.splits)

lemma conv_backward_loop_invariant:
  assumes db: "\<And>i s. P s \<Longrightarrow> P (snd (conv_backward_dbiases delta i s))"
    and st: "\<And>i j k s. P s \<Longrightarrow> P (snd (conv_backward_step delta i j k s))"
    and init: "P s"
  shows "P (snd (for_each is (\<lambda>i s.
            case conv_backward_dbiases delta i s of
              (Some e, s') \<Rightarrow> (Some e, s')
            | (None, s') \<Rightarrow>
                for_each (js s') (\<lambda>j. for_each (ks s') (\<lambda>k.
                  conv_backward_step delta i j k)) s') s))"
  using init
proof (rule for_each_invariant [where P = P, rotated])
  fix i s assume a: "P s"
  obtain r s1 where d: "conv_backward_dbiases delta i s = (r, s1)"
    by (cases "conv_backward_dbiases delta i s")
  have s1: "P s1"
    using db [OF a, of i] d by simp
  have "P (snd (for_each (js s1) (\<lambda>j. for_each (ks s1) (\<lambda>k. conv_backward_step delta i j k)) s1))"
    using s1
  proof (rule for_each_invariant [where P = P, rotated])
    fix j s assume "P s"
    then show "P (snd (for_each (ks s1) (\<lambda>k. conv_backward_step delta i j k) s))"
      by (rule for_each_invariant [where P = P, rotated]) (rule st)
  qed
  then show "P (snd (case conv_backward_dbiases delta i s of
              (Some e, s') \<Rightarrow> (Some e, s')
            | (None, s') \<Rightarrow>
                for_each (js s') (\<lambda>j. for_each (ks s') (\<lambda>k.
                  conv_backward_step delta i j k)) s'))"
    using d s1 by (cases r) simp_all
qed

lemma has_shape_zeros [simp]: "has_shape (Some (zeros sh)) sh"
  by (simp add: has_shape_def zeros_def)

lemma conv_backward_shapes:
  assumes "c_inputs s = Some x"
  shows "conv_gradient_shapes (shape (c_kernels s)) (shape (c_biases s)) (shape x)
           (snd (conv_backward s delta))"
proof -
  let ?P = "conv_gradient_shapes (shape (c_kernels s)) (shape (c_biases s)) (shape x)"
  let ?s3 = "s\<lparr>c_dkernels := Some (zeros (shape (c_kernels s))),
               c_dbiases := Some (zeros (shape (c_biases s))),
               c_dinputs := Some (zeros (shape x))\<rparr>"
  have s3: "?P ?s3"
    by (simp add: conv_gradient_shapes_def)
  show ?thesis
  proof (cases "shape x")
    case Nil
    then show ?thesis
      using assms s3 by (simp add: conv_backward_def)
  next
    case (Cons n sh)
    have "?P (snd (for_each [0..<n] (\<lambda>i s.
            case conv_backward_dbiases delta i s of
              (Some e, s') \<Rightarrow> (Some e, s')
            | (None, s') \<Rightarrow>
                for_each [0..<nat (c_output_channels s')] (\<lambda>j.
                  for_each [0..<nat (c_input_channels s')] (\<lambda>k.
                    conv_backward_step delta i j k)) s') ?s3))"
      by (rule conv_backward_loop_invariant
            [where P = ?P and js = "\<lambda>t. [0..<nat (c_output_channels t)]"
               and ks = "\<lambda>t. [0..<nat (c_input_channels t)]"])
         (simp_all only: conv_backward_dbiases_shapes conv_backward_step_shapes s3)
    then show ?thesis
      using assms Cons by (simp add: conv_backward_def)
  qed
qed

lemma conv_forward_inputs:
  assumes "conv_forward s x = (None, s')"
  shows "c_inputs s' = Some x"
proof (cases "shape x")
  case Nil
  then show ?thesis
    using assms by (simp add: conv_forward_def)
next
  case (Cons n sh)
  let ?s1 = "s\<lparr>c_inputs := Some x\<rparr>"
  have "conv_output_frame ?s1 (snd (conv_forward s x))"
  proof (cases "np_zeros (int n # c_output_shape s)")
    case (Inl e)
    then show ?thesis
      using Cons by (simp add: conv_forward_def conv_output_frame_def conv_params_kept_def)
  next
    case (Inr z)
    show ?thesis
    proof (cases "np_iadd_item z [] (c_biases s)")
      case (Inl e)
      then show ?thesis
        using Cons Inr by (simp add: conv_forward_def conv_output_frame_def conv_params_kept_def)
    next
      case zb: (Inr zb)
      have "conv_output_frame ?s1 (?s1\<lparr>c_output := Some z, c_output := Some zb\<rparr>)"
        by (simp add: conv_output_frame_def conv_params_kept_def)
      from conv_forward_loops_frame [OF this]
      show ?thesis
        using Cons Inr zb by (simp add: conv_forward_def)
    qed
  qed
  then show ?thesis
    using assms by (simp add: conv_output_frame_def)
qed

lemma dense_backward_shapes:
  assumes "d_inputs s = Some inputs" and "shape inputs = [batch, n_inputs]"
    and "shape (d_weights s) = [n_inputs, n_neurons]"
    and "shape delta = [batch, n_neurons]"
  shows "\<exists>dw db di.
           dense_backward s delta
             = (None, s\<lparr>d_dweights := Some dw, d_dbiases := Some db, d_dinputs := Some di\<rparr>)
         \<and> shape dw = [n_inputs, n_neurons] \<and> shape db = [n_neurons]
         \<and> shape di = [batch, n_inputs]"
proof -
  obtain dw where dw: "np_dot (np_T inputs) delta = Inr dw" "shape dw = [n_inputs, n_neurons]"
    using np_dot_matrix [OF np_T_matrix(1) [OF assms(2)] assms(4)] by simp
  obtain db where db: "np_sum0 delta = Inr db" "shape db = [n_neurons]"
    using np_sum0_matrix [OF assms(4)] by simp
  obtain di where di: "np_dot delta (np_T (d_weights s)) = Inr di" "shape di = [batch, n_inputs]"
    using np_dot_matrix [OF assms(4) np_T_matrix(1) [OF assms(3)]] by simp
  have "dense_backward s delta
          = (None, s\<lparr>d_dweights := Some dw, d_dbiases := Some db, d_dinputs := Some di\<rparr>)"
    using assms(1) dw(1) db(1) di(1) by (simp add: dense_backward_def)
  then show ?thesis
    using dw(2) db(2) di(2) by blast
qed

text \<open>
  Claim C3.  The gradients have the shapes of what they are gradients of, for any batch
  size.  For a dense layer with inputs \<open>[batch, n_inputs]\<close> and \<open>delta\<close> of shape
  \<open>[batch, n_neurons]\<close>, and for a reshape layer with inputs \<open>[batch, *input_shape]\<close>
  and \<open>delta\<close> of shape \<open>[batch, output_shape]\<close>, forward and backward return normally
  and the shapes agree.  For a convolutional layer, after a forward call that returned,
  backward leaves \<open>dinputs\<close>, \<open>dkernels\<close> and \<open>dbiases\<close> with the shapes of the inputs,
  the kernels and the biases for every configuration and every \<open>delta\<close>, whether it
  returns or raises.
\<close>

theorem gradient_shape_law:
  "(shape x = [batch, n_inputs] \<and> shape (d_weights d) = [n_inputs, n_neurons]
      \<and> shape (d_biases d) = [n_neurons] \<and> shape delta = [batch, n_neurons] \<longrightarrow>
      (\<exists>d1 d2 dw db di.
          dense_forward d x = (None, d1) \<and> dense_backward d1 delta = (None, d2)
        \<and> d_dinputs d2 = Some di \<and> shape di = shape x
        \<and> d_dweights d2 = Some dw \<and> shape dw = shape (d_weights d2)
        \<and> d_dbiases d2 = Some db \<and> shape db = shape (d_biases d2)))
   \<and> (conv_forward c xc = (None, c1) \<longrightarrow>
      (\<exists>dk db di.
          c_dinputs (snd (conv_backward c1 deltac)) = Some di \<and> shape di = shape xc
        \<and> c_dkernels (snd (conv_backward c1 deltac)) = Some dk
        \<and> shape dk = shape (c_kernels (snd (conv_backward c1 deltac)))
        \<and> c_dbiases (snd (conv_backward c1 deltac)) = Some db
        \<and> shape db = shape (c_biases (snd (conv_backward c1 deltac)))))
   \<and> (r_input_shape r = map int ishape \<and> r_output_shape r = int (prod_list ishape)
      \<and> shape xr = b # ishape \<and> shape deltar = [b, prod_list ishape] \<longrightarrow>
      (\<exists>r1 r2 di.
          reshape_forward r xr = (None, r1) \<and> reshape_backward r1 deltar = (None, r2)
        \<and> r_dinputs r2 = Some di \<and> shape di = shape xr))"
proof (intro conjI impI)
  assume a: "shape x = [batch, n_inputs] \<and> shape (d_weights d) = [n_inputs, n_neurons]
      \<and> shape (d_biases d) = [n_neurons] \<and> shape delta = [batch, n_neurons]"
  then obtain out where fwd:
    "dense_forward d x = (None, d\<lparr>d_inputs := Some x, d_output := Some out\<rparr>)"
    using dense_forward_ok [of x batch n_inputs d n_neurons] by blast
  let ?d1 = "d\<lparr>d_inputs := Some x, d_output := Some out\<rparr>"
  obtain dw db di where bwd:
    "dense_backward ?d1 delta
       = (None, ?d1\<lparr>d_dweights := Some dw, d_dbiases := Some db, d_dinputs := Some di\<rparr>)"
    "shape dw = [n_inputs, n_neurons]" "shape db = [n_neurons]" "shape di = [batch, n_inputs]"
    using dense_backward_shapes [of ?d1 x batch n_inputs n_neurons delta] a by auto
  show "\<exists>d1 d2 dw db di.
          dense_forward d x = (None, d1) \<and> dense_backward d1 delta = (None, d2)
        \<and> d_dinputs d2 = Some di \<and> shape di = shape x
        \<and> d_dweights d2 = Some dw \<and> shape dw = shape (d_weights d2)
        \<and> d_dbiases d2 = Some db \<and> shape db = shape (d_biases d2)"
    using fwd bwd a
    by (intro exI [of _ ?d1]
          exI [of _ "?d1\<lparr>d_dweights := Some dw, d_dbiases := Some db, d_dinputs := Some di\<rparr>"]
          exI [of _ dw] exI [of _ db] exI [of _ di]) simp
next
  assume "conv_forward c xc = (None, c1)"
  then have "c_inputs c1 = Some xc" by (rule conv_forward_inputs)
  from conv_backward_shapes [OF this, of deltac] conv_backward_frame [of c1 deltac]
  show "\<exists>dk db di.
          c_dinputs (snd (conv_backward c1 deltac)) = Some di \<and> shape di = shape xc
        \<and> c_dkernels (snd (conv_backward c1 deltac)) = Some dk
        \<and> shape dk = shape (c_kernels (snd (conv_backward c1 deltac)))
        \<and> c_dbiases (snd (conv_backward c1 deltac)) = Some db
        \<and> shape db = shape (c_biases (snd (conv_backward c1 deltac)))"
    by (auto simp: conv_gradient_shapes_def has_shape_def conv_params_kept_def split: option.splits)
next
  assume a: "r_input_shape r = map int ishape \<and> r_output_shape r = int (prod_list ishape)
      \<and> shape xr = b # ishape \<and> shape deltar = [b, prod_list ishape]"
  let ?out = "\<lparr>shape = [b, prod_list ishape], data = data xr\<rparr>"
  let ?r1 = "r\<lparr>r_output := Some ?out\<rparr>"
  let ?di = "\<lparr>shape = b # ishape, data = data deltar\<rparr>"
  have "np_reshape xr (map int [b, prod_list ishape]) = Inr ?out"
    by (rule np_reshape_nat) (simp add: a)
  then have fwd: "reshape_forward r xr = (None, ?r1)"
    using a by (simp add: reshape_forward_def)
  have "np_reshape deltar (map int (b # ishape)) = Inr ?di"
    by (rule np_reshape_nat) (simp add: a)
  then have bwd: "reshape_backward ?r1 deltar = (None, ?r1\<lparr>r_dinputs := Some ?di\<rparr>)"
    using a by (simp add: reshape_backward_def)
  show "\<exists>r1 r2 di.
          reshape_forward r xr = (None, r1) \<and> reshape_backward r1 deltar = (None, r2)
        \<and> r_dinputs r2 = Some di \<and> shape di = shape xr"
    using fwd bwd a
    by (intro exI [of _ ?r1] exI [of _ "?r1\<lparr>r_dinputs := Some ?di\<rparr>"] exI [of _ ?di]) simp
qed

theorem gradient_shape_law_witness:
  "(\<exists>d1 d2 dw db di.
       dense_forward
        \<lparr>d_weights = \<lparr>shape = [2, 2], data = [1, 0, 0, 1]\<rparr>,
        d_biases = \<lparr>shape = [2], data = [0, 0]\<rparr>,
        d_inputs = None, d_output = None, d_dweights = None, d_dbiases = None,
        d_dinputs = None\<rparr>
        \<lparr>shape = [1, 2], data = [2, 3]\<rparr> = (None, d1)
     \<and> dense_backward d1 \<lparr>shape = [1, 2], data = [1, 1]\<rparr> = (None, d2)
     \<and> d_dinputs d2 = Some di \<and> shape di = [1, 2]
     \<and> d_dweights d2 = Some dw \<and> shape dw = shape (d_weights d2)
     \<and> d_dbiases d2 = Some db \<and> shape db = shape (d_biases d2))
   \<and> conv_forward
        \<lparr>c_input_channels = 1, c_output_channels = 1, c_kernel_size = 2, c_stride = 2,
        c_output_shape = [1, 1, 1], c_kernels_shape = [1, 1, 2, 2],
        c_kernels = \<lparr>shape = [1, 1, 2, 2], data = [1, 1, 1, 1]\<rparr>,
        c_biases = \<lparr>shape = [1, 1, 1], data = [0]\<rparr>,
        c_inputs = None, c_output = None,
        c_dkernels = None, c_dbiases = None, c_dinputs = None\<rparr>
        \<lparr>shape = [1, 1, 3, 3], data = [1, 1, 1, 1, 1, 1, 1, 1, 1]\<rparr>
      = (None,
        \<lparr>c_input_channels = 1, c_output_channels = 1, c_kernel_size = 2, c_stride = 2,
        c_output_shape = [1, 1, 1], c_kernels_shape = [1, 1, 2, 2],
        c_kernels = \<lparr>shape = [1, 1, 2, 2], data = [1, 1, 1, 1]\<rparr>,
        c_biases = \<lparr>shape = [1, 1, 1], data = [0]\<rparr>,
        c_inputs = Some \<lparr>shape = [1, 1, 3, 3], data = [1, 1, 1, 1, 1, 1, 1, 1, 1]\<rparr>, c_output = Some \<lparr>shape = [1, 1, 1, 1], data = [4]\<rparr>,
        c_dkernels = None, c_dbiases = None, c_dinputs = None\<rparr>)
   \<and> (\<exists>dk db di.
         c_dinputs (snd (conv_backward
        \<lparr>c_input_channels = 1, c_output_channels = 1, c_kernel_size = 2, c_stride = 2,
        c_output_shape = [1, 1, 1], c_kernels_shape = [1, 1, 2, 2],
        c_kernels = \<lparr>shape = [1, 1, 2, 2], data = [1, 1, 1, 1]\<rparr>,
        c_biases = \<lparr>shape = [1, 1, 1], data = [0]\<rparr>,
        c_inputs = Some \<lparr>shape = [1, 1, 3, 3], data = [1, 1, 1, 1, 1, 1, 1, 1, 1]\<rparr>, c_output = Some \<lparr>shape = [1, 1, 1, 1], data = [4]\<rparr>,
        c_dkernels = None, c_dbiases = None, c_dinputs = None\<rparr>
        \<lparr>shape = [1, 1, 1, 1], data = [1]\<rparr>)) = Some di
       \<and> shape di = [1, 1, 3, 3]
       \<and> c_dkernels (snd (conv_backward
        \<lparr>c_input_channels = 1, c_output_channels = 1, c_kernel_size = 2, c_stride = 2,
        c_output_shape = [1, 1, 1], c_kernels_shape = [1, 1, 2, 2],
        c_kernels = \<lparr>shape = [1, 1, 2, 2], data = [1, 1, 1, 1]\<rparr>,
        c_biases = \<lparr>shape = [1, 1, 1], data = [0]\<rparr>,
        c_inputs = Some \<lparr>shape = [1, 1, 3, 3], data = [1, 1, 1, 1, 1, 1, 1, 1, 1]\<rparr>, c_output = Some \<lparr>shape = [1, 1, 1, 1], data = [4]\<rparr>,
        c_dkernels = None, c_dbiases = None, c_dinputs = None\<rparr>
        \<lparr>shape = [1, 1, 1, 1], data = [1]\<rparr>)) = Some dk
       \<and> shape dk = [1, 1, 2, 2]
       \<and> c_dbiases (snd (conv_backward
        \<lparr>c_input_channels = 1, c_output_channels = 1, c_kernel_size = 2, c_stride = 2,
        c_output_shape = [1, 1, 1], c_kernels_shape = [1, 1, 2, 2],
        c_kernels = \<lparr>shape = [1, 1, 2, 2], data = [1, 1, 1, 1]\<rparr>,
        c_biases = \<lparr>shape = [1, 1, 1], data = [0]\<rparr>,
        c_inputs = Some \<lparr>shape = [1, 1, 3, 3], data = [1, 1, 1, 1, 1, 1, 1, 1, 1]\<rparr>, c_output = Some \<lparr>shape = [1, 1, 1, 1], data = [4]\<rparr>,
        c_dkernels = None, c_dbiases = None, c_dinputs = None\<rparr>
        \<lparr>shape = [1, 1, 1, 1], data = [1]\<rparr>)) = Some db
       \<and> shape db = [1, 1, 1])
   \<and> (\<exists>r1 r2 di.
       reshape_forward (reshape_init [3, 1] 3) \<lparr>shape = [2, 3, 1], data = [1, 2, 3, 4, 5, 6]\<rparr> = (None, r1)
     \<and> reshape_backward r1 \<lparr>shape = [2, 3], data = [6, 5, 4, 3, 2, 1]\<rparr> = (None, r2)
     \<and> r_dinputs r2 = Some di \<and> shape di = [2, 3, 1])"
proof -
  let ?d = "\<lparr>d_weights = \<lparr>shape = [2, 2], data = [1, 0, 0, 1]\<rparr>,
        d_biases = \<lparr>shape = [2], data = [0, 0]\<rparr>,
        d_inputs = None, d_output = None, d_dweights = None, d_dbiases = None,
        d_dinputs = None\<rparr>"
  let ?c = "\<lparr>c_input_channels = 1, c_output_channels = 1, c_kernel_size = 2, c_stride = 2,
        c_output_shape = [1, 1, 1], c_kernels_shape = [1, 1, 2, 2],
        c_kernels = \<lparr>shape = [1, 1, 2, 2], data = [1, 1, 1, 1]\<rparr>,
        c_biases = \<lparr>shape = [1, 1, 1], data = [0]\<rparr>,
        c_inputs = None, c_output = None,
        c_dkernels = None, c_dbiases = None, c_dinputs = None\<rparr>"
  let ?c1 = "\<lparr>c_input_channels = 1, c_output_channels = 1, c_kernel_size = 2, c_stride = 2,
        c_output_shape = [1, 1, 1], c_kernels_shape = [1, 1, 2, 2],
        c_kernels = \<lparr>shape = [1, 1, 2, 2], data = [1, 1, 1, 1]\<rparr>,
        c_biases = \<lparr>shape = [1, 1, 1], data = [0]\<rparr>,
        c_inputs = Some \<lparr>shape = [1, 1, 3, 3], data = [1, 1, 1, 1, 1, 1, 1, 1, 1]\<rparr>, c_output = Some \<lparr>shape = [1, 1, 1, 1], data = [4]\<rparr>,
        c_dkernels = None, c_dbiases = None, c_dinputs = None\<rparr>"
  let ?xc = "\<lparr>shape = [1, 1, 3, 3], data = [1, 1, 1, 1, 1, 1, 1, 1, 1]\<rparr>"
  let ?dc = "\<lparr>shape = [1, 1, 1, 1], data = [1]\<rparr>"
  note t = gradient_shape_law
    [where d = ?d and x = "\<lparr>shape = [1, 2], data = [2, 3]\<rparr>" and delta = "\<lparr>shape = [1, 2], data = [1, 1]\<rparr>"
       and batch = 1 and n_inputs = 2 and n_neurons = 2
       and c = ?c and xc = ?xc and ?c1.0 = ?c1 and deltac = ?dc
       and r = "(reshape_init [3, 1] 3)" and ishape = "[3, 1]" and b = 2
       and xr = "\<lparr>shape = [2, 3, 1], data = [1, 2, 3, 4, 5, 6]\<rparr>" and deltar = "\<lparr>shape = [2, 3], data = [6, 5, 4, 3, 2, 1]\<rparr>"]
  have cf: "conv_forward ?c ?xc = (None, ?c1)"
    by code_simp
  have kb: "shape (c_kernels (snd (conv_backward ?c1 ?dc))) = [1, 1, 2, 2]"
    "shape (c_biases (snd (conv_backward ?c1 ?dc))) = [1, 1, 1]"
    using conv_backward_frame [of ?c1 ?dc] by (simp_all add: conv_params_kept_def)
  have "(\<exists>d1 d2 dw db di.
       dense_forward
        \<lparr>d_weights = \<lparr>shape = [2, 2], data = [1, 0, 0, 1]\<rparr>,
        d_biases = \<lparr>shape = [2], data = [0, 0]\<rparr>,
        d_inputs = None, d_output = None, d_dweights = None, d_dbiases = None,
        d_dinputs = None\<rparr>
        \<lparr>shape = [1, 2], data = [2, 3]\<rparr> = (None, d1)
     \<and> dense_backward d1 \<lparr>shape = [1, 2], data = [1, 1]\<rparr> = (None, d2)
     \<and> d_dinputs d2 = Some di \<and> shape di = [1, 2]
     \<and> d_dweights d2 = Some dw \<and> shape dw = shape (d_weights d2)
     \<and> d_dbiases d2 = Some db \<and> shape db = shape (d_biases d2))"
    using t by (simp add: reshape_init_def)
  moreover have "conv_forward
        \<lparr>c_input_channels = 1, c_output_channels = 1, c_kernel_size = 2, c_stride = 2,
        c_output_shape = [1, 1, 1], c_kernels_shape = [1, 1, 2, 2],
        c_kernels = \<lparr>shape = [1, 1, 2, 2], data = [1, 1, 1, 1]\<rparr>,
        c_biases = \<lparr>shape = [1, 1, 1], data = [0]\<rparr>,
        c_inputs = None, c_output = None,
        c_dkernels = None, c_dbiases = None, c_dinputs = None\<rparr>
        \<lparr>shape = [1, 1, 3, 3], data = [1, 1, 1, 1, 1, 1, 1, 1, 1]\<rparr>
      = (None,
        \<lparr>c_input_channels = 1, c_output_channels = 1, c_kernel_size = 2, c_stride = 2,
        c_output_shape = [1, 1, 1], c_kernels_shape = [1, 1, 2, 2],
        c_kernels = \<lparr>shape = [1, 1, 2, 2], data = [1, 1, 1, 1]\<rparr>,
        c_biases = \<lparr>shape = [1, 1, 1], data = [0]\<rparr>,
        c_inputs = Some \<lparr>shape = [1, 1, 3, 3], data = [1, 1, 1, 1, 1, 1, 1, 1, 1]\<rparr>, c_output = Some \<lparr>shape = [1, 1, 1, 1], data = [4]\<rparr>,
        c_dkernels = None, c_dbiases = None, c_dinputs = None\<rparr>)
   \<and> (\<exists>dk db di.
         c_dinputs (snd (conv_backward
        \<lparr>c_input_channels = 1, c_output_channels = 1, c_kernel_size = 2, c_stride = 2,
        c_output_shape = [1, 1, 1], c_kernels_shape = [1, 1, 2, 2],
        c_kernels = \<lparr>shape = [1, 1, 2, 2], data = [1, 1, 1, 1]\<rparr>,
        c_biases = \<lparr>shape = [1, 1, 1], data = [0]\<rparr>,
        c_inputs = Some \<lparr>shape = [1, 1, 3, 3], data = [1, 1, 1, 1, 1, 1, 1, 1, 1]\<rparr>, c_output = Some \<lparr>shape = [1, 1, 1, 1], data = [4]\<rparr>,
        c_dkernels = None, c_dbiases = None, c_dinputs = None\<rparr>
        \<lparr>shape = [1, 1, 1, 1], data = [1]\<rparr>)) = Some di
       \<and> shape di = [1, 1, 3, 3]
       \<and> c_dkernels (snd (conv_backward
        \<lparr>c_input_channels = 1, c_output_channels = 1, c_kernel_size = 2, c_stride = 2,
        c_output_shape = [1, 1, 1], c_kernels_shape = [1, 1, 2, 2],
        c_kernels = \<lparr>shape = [1, 1, 2, 2], data = [1, 1, 1, 1]\<rparr>,
        c_biases = \<lparr>shape = [1, 1, 1], data = [0]\<rparr>,
        c_inputs = Some \<lparr>shape = [1, 1, 3, 3], data = [1, 1, 1, 1, 1, 1, 1, 1, 1]\<rparr>, c_output = Some \<lparr>shape = [1, 1, 1, 1], data = [4]\<rparr>,
        c_dkernels = None, c_dbiases = None, c_dinputs = None\<rparr>
        \<lparr>shape = [1, 1, 1, 1], data = [1]\<rparr>)) = Some dk
       \<and> shape dk = [1, 1, 2, 2]
       \<and> c_dbiases (snd (conv_backward
        \<lparr>c_input_channels = 1, c_output_channels = 1, c_kernel_size = 2, c_stride = 2,
        c_output_shape = [1, 1, 1], c_kernels_shape = [1, 1, 2, 2],
        c_kernels = \<lparr>shape = [1, 1, 2, 2], data = [1, 1, 1, 1]\<rparr>,
        c_biases = \<lparr>shape = [1, 1, 1], data = [0]\<rparr>,
        c_inputs = Some \<lparr>shape = [1, 1, 3, 3], data = [1, 1, 1, 1, 1, 1, 1, 1, 1]\<rparr>, c_output = Some \<lparr>shape = [1, 1, 1, 1], data = [4]\<rparr>,
        c_dkernels = None, c_dbiases = None, c_dinputs = None\<rparr>
        \<lparr>shape = [1, 1, 1, 1], data = [1]\<rparr>)) = Some db
       \<and> shape db = [1, 1, 1])"
    using t cf kb by (simp add: reshape_init_def)
  moreover have "(\<exists>r1 r2 di.
       reshape_forward (reshape_init [3, 1] 3) \<lparr>shape = [2, 3, 1], data = [1, 2, 3, 4, 5, 6]\<rparr> = (None, r1)
     \<and> reshape_backward r1 \<lparr>shape = [2, 3], data = [6, 5, 4, 3, 2, 1]\<rparr> = (None, r2)
     \<and> r_dinputs r2 = Some di \<and> shape di = [2, 3, 1])"
    using t by (simp add: reshape_init_def)
  ultimately show ?thesis by blast
qed

section \<open>ConvolutionalLayer: forward\<close>

lemma in_bounds_Cons [simp]: "in_bounds (d # ds) (i # is) \<longleftrightarrow> i < d \<and> in_bounds ds is"
  by (simp add: in_bounds_def)

lemma in_bounds_Nil [simp]: "in_bounds [] idx \<longleftrightarrow> idx = []"
  by (simp add: in_bounds_def)

lemma in_bounds_Cons_elim:
  assumes "in_bounds (d # ds) idx"
  obtains i rest where "idx = i # rest" "i < d" "in_bounds ds rest"
  using assms by (auto simp: in_bounds_def list_all2_Cons2)

lemma in_bounds4_elim:
  assumes "in_bounds [a, b, c, d] idx"
  obtains i j y x where "idx = [i, j, y, x]" "i < a" "j < b" "y < c" "x < d"
  using assms by (auto elim!: in_bounds_Cons_elim)

lemma in_bounds2_elim:
  assumes "in_bounds [c, d] idx"
  obtains y x where "idx = [y, x]" "y < c" "x < d"
  using assms by (auto elim!: in_bounds_Cons_elim)

lemma bidx_same: "in_bounds sh idx \<Longrightarrow> bidx sh idx = idx"
proof (induction sh arbitrary: idx)
  case Nil
  then show ?case by (simp add: bidx_def)
next
  case (Cons d ds)
  then obtain i rest where r: "idx = i # rest" "i < d" "in_bounds ds rest"
    by (auto elim: in_bounds_Cons_elim)
  have "length rest = length ds"
    using r(3) by (rule in_bounds_length)
  then show ?case
    using Cons.IH [OF r(3)] r by (auto simp: bidx_def)
qed

lemma bidx_suffix:
  assumes "in_bounds sh rest" and "length pre + length sh = n" and "length pre + length rest = n"
  shows "bidx sh (pre @ rest) = rest"
proof -
  have "length rest = length sh" using assms(1) by (rule in_bounds_length)
  then have "bidx sh (pre @ rest) = bidx sh rest"
    by (simp add: bidx_def)
  then show ?thesis using bidx_same [OF assms(1)] by simp
qed

lemma np_item2:
  assumes "shape a = d0 # d1 # sh" and "i < d0" and "k < d1"
  shows "np_item a [i, k] = Inr (tabulate sh (\<lambda>rest. get a (i # k # rest)))"
  using assms by (simp add: np_item_def)


lemma correlate2d_valid:
  assumes "shape a = [h1, w1]" and "shape b = [h2, w2]" and "h2 \<le> h1" and "w2 \<le> w1"
  shows "correlate2d a b = Inr (tabulate [h1 - h2 + 1, w1 - w2 + 1]
           (\<lambda>idx. \<Sum>u<h2. \<Sum>v<w2. get a [idx ! 0 + u, idx ! 1 + v] * get b [u, v]))"
  using assms by (simp add: correlate2d_def corr_valid_def sum_list_upt_sum)

lemma slice_len_pos: "0 < s \<Longrightarrow> slice_len (Suc m) (int s) = m div s + 1"
proof -
  assume s: "0 < s"
  have "(int (Suc m) + \<bar>int s\<bar> - 1) div \<bar>int s\<bar> = int ((m + s) div s)"
    by (simp add: zdiv_int)
  then show ?thesis
    using s by (simp add: slice_len_def)
qed

lemma np_step2_pos:
  assumes "shape a = [Suc h, Suc w]" and "0 < s"
  shows "np_step2 a (int s) = Inr (tabulate [h div s + 1, w div s + 1]
           (\<lambda>idx. get a [idx ! 0 * s, idx ! 1 * s]))"
proof -
  have "tabulate [h div s + 1, w div s + 1] (\<lambda>idx. get a (idx ! 0 * s # idx ! 1 * s # drop 2 idx))
        = tabulate [h div s + 1, w div s + 1] (\<lambda>idx. get a [idx ! 0 * s, idx ! 1 * s])"
    by (rule tabulate_cong) (auto elim!: in_bounds2_elim)
  then show ?thesis
    using assms by (simp add: np_step2_def slice_len_pos slice_pos_def)
qed

lemma strided_window:
  assumes "shape inputs = [n, ic, h, w]" and "shape kernels = [oc, ic, ks, ks]"
    and "i < n" and "j < oc" and "k < ic" and "0 < s" and "0 < ks" and "ks \<le> h" and "ks \<le> w"
  shows "\<exists>v. bind_e (np_item inputs [i, k]) (\<lambda>x.
              bind_e (np_item kernels [j, k]) (\<lambda>w.
              bind_e (correlate2d x w) (\<lambda>c. np_step2 c (int s)))) = Inr v
           \<and> shape v = [(h - ks) div s + 1, (w - ks) div s + 1]
           \<and> (\<forall>y x. y < (h - ks) div s + 1 \<longrightarrow> x < (w - ks) div s + 1 \<longrightarrow>
                 get v [y, x] = window_sum inputs kernels ks s i j k y x)"
proof -
  let ?x = "tabulate [h, w] (\<lambda>rest. get inputs (i # k # rest))"
  let ?w = "tabulate [ks, ks] (\<lambda>rest. get kernels (j # k # rest))"
  let ?c = "tabulate [h - ks + 1, w - ks + 1]
              (\<lambda>idx. \<Sum>u<ks. \<Sum>v<ks. get ?x [idx ! 0 + u, idx ! 1 + v] * get ?w [u, v])"
  let ?v = "tabulate [(h - ks) div s + 1, (w - ks) div s + 1]
              (\<lambda>idx. get ?c [idx ! 0 * s, idx ! 1 * s])"
  have x: "np_item inputs [i, k] = Inr ?x"
    using assms(1,3,5) by (rule np_item2)
  have w: "np_item kernels [j, k] = Inr ?w"
    using assms(2,4,5) by (rule np_item2)
  have c: "correlate2d ?x ?w = Inr ?c"
    using assms(8,9) by (intro correlate2d_valid) simp_all
  have v: "np_step2 ?c (int s) = Inr ?v"
    using assms(6) by (intro np_step2_pos) simp_all
  have val: "get ?v [y, x] = window_sum inputs kernels ks s i j k y x"
    if y: "y < (h - ks) div s + 1" and x': "x < (w - ks) div s + 1" for y x
  proof -
    have "y * s \<le> (h - ks) div s * s" "x * s \<le> (w - ks) div s * s"
      using y x' by simp_all
    moreover have "(h - ks) div s * s \<le> h - ks" "(w - ks) div s * s \<le> w - ks"
      by simp_all
    ultimately have ys: "y * s \<le> h - ks" and xs: "x * s \<le> w - ks"
      by linarith+
    have "get ?v [y, x] = get ?c [y * s, x * s]"
      using y x' by (simp add: get_tabulate)
    also have "\<dots> = (\<Sum>u<ks. \<Sum>v<ks. get ?x [y * s + u, x * s + v] * get ?w [u, v])"
      using ys xs by (simp add: get_tabulate)
    also have "\<dots> = (\<Sum>u<ks. \<Sum>v<ks.
                 get inputs [i, k, y * s + u, x * s + v] * get kernels [j, k, u, v])"
    proof (intro sum.cong refl)
      fix u v assume "u \<in> {..<ks}" "v \<in> {..<ks}"
      then have "y * s + u < h" "x * s + v < w"
        using ys xs assms(8,9) by auto
      then show "get ?x [y * s + u, x * s + v] * get ?w [u, v]
                 = get inputs [i, k, y * s + u, x * s + v] * get kernels [j, k, u, v]"
        using \<open>u \<in> {..<ks}\<close> \<open>v \<in> {..<ks}\<close> by (simp add: get_tabulate)
    qed
    finally show ?thesis
      by (simp add: window_sum_def)
  qed
  have "bind_e (np_item inputs [i, k]) (\<lambda>x.
          bind_e (np_item kernels [j, k]) (\<lambda>w.
          bind_e (correlate2d x w) (\<lambda>c. np_step2 c (int s)))) = Inr ?v"
    using x w c v by (simp add: bind_e_def)
  then show ?thesis
    using val by (intro exI [of _ ?v]) simp
qed

lemma for_each_append:
  "for_each (xs @ ys) body s =
     (case for_each xs body s of
        (Some e, s') \<Rightarrow> (Some e, s')
      | (None, s') \<Rightarrow> for_each ys body s')"
  by (induction xs arbitrary: s) (auto split: prod.splits option.splits)

lemma for_each_accumulates:
  assumes step: "\<And>a out. a \<in> set xs \<Longrightarrow> shape out = sh \<Longrightarrow>
            \<exists>out'. body a (st out) = (None, st out') \<and> accumulated (F a) out out'"
    and "shape out = sh"
  shows "\<exists>out'. for_each xs body (st out) = (None, st out')
           \<and> accumulated (\<lambda>idx. \<Sum>a\<leftarrow>xs. F a idx) out out'"
  using assms
proof (induction xs arbitrary: out)
  case Nil
  then show ?case by (auto simp: accumulated_def)
next
  case (Cons a xs)
  obtain out1 where o1: "body a (st out) = (None, st out1)" "accumulated (F a) out out1"
    using Cons.prems(1) [of a out] Cons.prems(2) by auto
  then have sh1: "shape out1 = sh"
    using Cons.prems(2) by (simp add: accumulated_def)
  obtain out2 where o2: "for_each xs body (st out1) = (None, st out2)"
    "accumulated (\<lambda>idx. \<Sum>a\<leftarrow>xs. F a idx) out1 out2"
    using Cons.IH [of out1] Cons.prems(1) sh1 by auto
  have "accumulated (\<lambda>idx. \<Sum>a\<leftarrow>a # xs. F a idx) out out2"
    using o1(2) o2(2) by (simp add: accumulated_def)
  then show ?case
    using o1(1) o2(1) by auto
qed

lemma broadcastable_same [simp]: "broadcastable sh sh"
  by (simp add: broadcastable_def list_all2_same)

lemma conv_forward_step_accumulates:
  assumes "c_inputs s0 = Some inputs" and "c_stride s0 = int s"
    and "shape inputs = [n, ic, h, w]" and "shape (c_kernels s0) = [oc, ic, ks, ks]"
    and "0 < s" and "0 < ks" and "ks \<le> h" and "ks \<le> w"
    and "i < n" and "j < oc" and "k < ic"
    and "shape out = [n, oc, (h - ks) div s + 1, (w - ks) div s + 1]"
  shows "\<exists>out'. conv_forward_step i j k (s0\<lparr>c_output := Some out\<rparr>)
                  = (None, s0\<lparr>c_output := Some out'\<rparr>)
           \<and> accumulated
                (\<lambda>idx. if take 2 idx = [i, j]
                        then window_sum inputs (c_kernels s0) ks s i j k (idx ! 2) (idx ! 3)
                        else 0) out out'"
proof -
  let ?oh = "(h - ks) div s + 1" and ?ow = "(w - ks) div s + 1"
  obtain v where v:
    "bind_e (np_item inputs [i, k]) (\<lambda>x.
       bind_e (np_item (c_kernels s0) [j, k]) (\<lambda>w.
       bind_e (correlate2d x w) (\<lambda>c. np_step2 c (int s)))) = Inr v"
    "shape v = [?oh, ?ow]"
    "\<forall>y x. y < ?oh \<longrightarrow> x < ?ow \<longrightarrow>
        get v [y, x] = window_sum inputs (c_kernels s0) ks s i j k y x"
    using strided_window [OF assms(3,4,9,10,11,5,6,7,8)] by blast
  let ?out' = "tabulate (shape out)
                 (\<lambda>idx. if take (length [i, j]) idx = [i, j]
                         then get out idx + get v (bidx (shape v) (drop (length [i, j]) idx))
                         else get out idx)"
  have item: "np_item out [i, j] = Inr (tabulate [?oh, ?ow] (\<lambda>rest. get out (i # j # rest)))"
    using assms(12,9,10) by (rule np_item2)
  have "broadcastable (shape v) (drop (length [i, j]) (shape out))"
    using v(2) assms(12) by simp
  then have "np_iadd_item out [i, j] v = Inr ?out'"
    by (simp only: np_iadd_item_def Let_def if_True)
  then have "iadd_item out [i, j]
               (bind_e (np_item inputs [i, k]) (\<lambda>x.
                bind_e (np_item (c_kernels s0) [j, k]) (\<lambda>w.
                bind_e (correlate2d x w) (\<lambda>c. np_step2 c (int s))))) = Inr ?out'"
    using item v(1) by (simp add: iadd_item_def bind_e_def)
  then have step: "conv_forward_step i j k (s0\<lparr>c_output := Some out\<rparr>)
                     = (None, s0\<lparr>c_output := Some ?out'\<rparr>)"
    using assms(1,2) by (simp add: conv_forward_step_def)
  have "get ?out' idx = get out idx
          + (if take 2 idx = [i, j]
             then window_sum inputs (c_kernels s0) ks s i j k (idx ! 2) (idx ! 3) else 0)"
    if "in_bounds (shape out) idx" for idx
  proof -
    from that have "in_bounds [n, oc, ?oh, ?ow] idx"
      by (simp only: assms(12))
    then obtain i' j' y x where idx: "idx = [i', j', y, x]" "i' < n" "j' < oc" "y < ?oh" "x < ?ow"
      by (rule in_bounds4_elim)
    have "bidx (shape v) (drop 2 idx) = [y, x]"
      using idx v(2) by (simp add: bidx_same)
    then show ?thesis
      using that idx v(3) by (simp add: get_tabulate)
  qed
  then have "accumulated
                (\<lambda>idx. if take 2 idx = [i, j]
                        then window_sum inputs (c_kernels s0) ks s i j k (idx ! 2) (idx ! 3)
                        else 0) out ?out'"
    by (simp add: accumulated_def)
  then show ?thesis
    using step by blast
qed

lemma sum_list_indicator:
  "(\<Sum>a\<leftarrow>[0..<n]. if a0 = a then g a else (0::real)) = (if a0 < n then g a0 else 0)"
  by (induction n) auto

lemma sum_list_if_const:
  "(\<Sum>a\<leftarrow>xs. if c then g a else (0::real)) = (if c then (\<Sum>a\<leftarrow>xs. g a) else 0)"
  by (induction xs) auto

lemma conv_forward_loops_accumulate:
  assumes "c_inputs s0 = Some inputs" and "c_stride s0 = int s"
    and "shape inputs = [n, ic, h, w]" and "shape (c_kernels s0) = [oc, ic, ks, ks]"
    and "0 < s" and "0 < ks" and "ks \<le> h" and "ks \<le> w"
    and "shape out = [n, oc, (h - ks) div s + 1, (w - ks) div s + 1]"
  shows "\<exists>out'. for_each [0..<n] (\<lambda>i. for_each [0..<oc] (\<lambda>j. for_each [0..<ic] (\<lambda>k.
                   conv_forward_step i j k))) (s0\<lparr>c_output := Some out\<rparr>)
                  = (None, s0\<lparr>c_output := Some out'\<rparr>)
           \<and> shape out' = shape out
           \<and> (\<forall>i<n. \<forall>j<oc. \<forall>y<(h - ks) div s + 1. \<forall>x<(w - ks) div s + 1.
                 get out' [i, j, y, x]
                   = get out [i, j, y, x]
                     + (\<Sum>k<ic. window_sum inputs (c_kernels s0) ks s i j k y x))"
proof -
  let ?sh = "[n, oc, (h - ks) div s + 1, (w - ks) div s + 1]"
  let ?st = "\<lambda>out. s0\<lparr>c_output := Some out\<rparr>"
  let ?F = "\<lambda>i j k idx. if take 2 idx = [i, j]
              then window_sum inputs (c_kernels s0) ks s i j k (idx ! 2) (idx ! 3) else 0"
  have lk: "\<exists>out'. for_each [0..<ic] (\<lambda>k. conv_forward_step i j k) (?st out) = (None, ?st out')
              \<and> accumulated (\<lambda>idx. \<Sum>k\<leftarrow>[0..<ic]. ?F i j k idx) out out'"
    if "i < n" "j < oc" "shape out = ?sh" for i j and out :: ndarray
  proof (rule for_each_accumulates [where sh = ?sh and st = ?st and F = "?F i j"])
    show "shape out = ?sh" by (rule that)
  next
    fix k and out :: ndarray assume "k \<in> set [0..<ic]" "shape out = ?sh"
    then show "\<exists>out'. conv_forward_step i j k (?st out) = (None, ?st out')
                 \<and> accumulated (?F i j k) out out'"
      using conv_forward_step_accumulates [OF assms(1-8) that(1,2), of k out] by simp
  qed
  have lj: "\<exists>out'. for_each [0..<oc] (\<lambda>j. for_each [0..<ic] (\<lambda>k. conv_forward_step i j k)) (?st out)
                 = (None, ?st out')
              \<and> accumulated (\<lambda>idx. \<Sum>j\<leftarrow>[0..<oc]. \<Sum>k\<leftarrow>[0..<ic]. ?F i j k idx) out out'"
    if "i < n" "shape out = ?sh" for i and out :: ndarray
  proof (rule for_each_accumulates
      [where sh = ?sh and st = ?st and F = "\<lambda>j idx. \<Sum>k\<leftarrow>[0..<ic]. ?F i j k idx"])
    show "shape out = ?sh" by (rule that)
  next
    fix j and out :: ndarray assume "j \<in> set [0..<oc]" "shape out = ?sh"
    then show "\<exists>out'. for_each [0..<ic] (\<lambda>k. conv_forward_step i j k) (?st out) = (None, ?st out')
                 \<and> accumulated (\<lambda>idx. \<Sum>k\<leftarrow>[0..<ic]. ?F i j k idx) out out'"
      using lk [OF that(1), of j out] by simp
  qed
  have "\<exists>out'. for_each [0..<n] (\<lambda>i. for_each [0..<oc] (\<lambda>j. for_each [0..<ic] (\<lambda>k.
                   conv_forward_step i j k))) (?st out) = (None, ?st out')
          \<and> accumulated (\<lambda>idx. \<Sum>i\<leftarrow>[0..<n]. \<Sum>j\<leftarrow>[0..<oc]. \<Sum>k\<leftarrow>[0..<ic]. ?F i j k idx)
                out out'"
  proof (rule for_each_accumulates
      [where sh = ?sh and st = ?st
         and F = "\<lambda>i idx. \<Sum>j\<leftarrow>[0..<oc]. \<Sum>k\<leftarrow>[0..<ic]. ?F i j k idx"])
    show "shape out = ?sh" by (rule assms(9))
  next
    fix i and out :: ndarray assume "i \<in> set [0..<n]" "shape out = ?sh"
    then show "\<exists>out'. for_each [0..<oc] (\<lambda>j. for_each [0..<ic] (\<lambda>k. conv_forward_step i j k))
                    (?st out) = (None, ?st out')
                 \<and> accumulated (\<lambda>idx. \<Sum>j\<leftarrow>[0..<oc]. \<Sum>k\<leftarrow>[0..<ic]. ?F i j k idx) out out'"
      using lj [of i out] by simp
  qed
  then obtain out' where o: "for_each [0..<n] (\<lambda>i. for_each [0..<oc] (\<lambda>j. for_each [0..<ic] (\<lambda>k.
                   conv_forward_step i j k))) (?st out) = (None, ?st out')"
    "accumulated (\<lambda>idx. \<Sum>i\<leftarrow>[0..<n]. \<Sum>j\<leftarrow>[0..<oc]. \<Sum>k\<leftarrow>[0..<ic]. ?F i j k idx) out out'"
    by blast
  have "get out' [i, j, y, x]
          = get out [i, j, y, x] + (\<Sum>k<ic. window_sum inputs (c_kernels s0) ks s i j k y x)"
    if b: "i < n" "j < oc" "y < (h - ks) div s + 1" "x < (w - ks) div s + 1" for i j y x
  proof -
    have "in_bounds (shape out) [i, j, y, x]"
      using b assms(9) by simp
    then have "get out' [i, j, y, x] = get out [i, j, y, x]
          + (\<Sum>i'\<leftarrow>[0..<n]. \<Sum>j'\<leftarrow>[0..<oc]. \<Sum>k\<leftarrow>[0..<ic]. ?F i' j' k [i, j, y, x])"
      using o(2) by (simp add: accumulated_def)
    also have "(\<Sum>i'\<leftarrow>[0..<n]. \<Sum>j'\<leftarrow>[0..<oc]. \<Sum>k\<leftarrow>[0..<ic]. ?F i' j' k [i, j, y, x])
          = (\<Sum>i'\<leftarrow>[0..<n]. if i = i'
               then (\<Sum>j'\<leftarrow>[0..<oc]. if j = j'
                 then (\<Sum>k\<leftarrow>[0..<ic]. window_sum inputs (c_kernels s0) ks s i' j' k y x) else 0)
               else 0)"
    proof (intro arg_cong [where f = sum_list] map_cong refl)
      fix i'
      show "(\<Sum>j'\<leftarrow>[0..<oc]. \<Sum>k\<leftarrow>[0..<ic]. ?F i' j' k [i, j, y, x])
          = (if i = i'
               then (\<Sum>j'\<leftarrow>[0..<oc]. if j = j'
                 then (\<Sum>k\<leftarrow>[0..<ic]. window_sum inputs (c_kernels s0) ks s i' j' k y x) else 0)
               else 0)"
        by (cases "i = i'") (simp_all add: sum_list_if_const cong: if_cong)
    qed
    also have "\<dots> = (\<Sum>k\<leftarrow>[0..<ic]. window_sum inputs (c_kernels s0) ks s i j k y x)"
      using b by (simp add: sum_list_indicator)
    finally show ?thesis
      by (simp add: sum_list_upt_sum)
  qed
  then show ?thesis
    using o by (auto simp: accumulated_def)
qed

lemma np_zeros_nat: "np_zeros (map int sh) = Inr (zeros sh)"
  by (simp add: np_zeros_def comp_def)

lemma biases_broadcast:
  assumes "shape out = n # sh" and "shape b = sh"
  shows "\<exists>out'. np_iadd_item out [] b = Inr out' \<and> shape out' = n # sh
           \<and> (\<forall>i rest. i < n \<longrightarrow> in_bounds sh rest \<longrightarrow>
                 get out' (i # rest) = get out (i # rest) + get b rest)"
proof -
  let ?out' = "tabulate (shape out)
                 (\<lambda>idx. if take (length ([] :: nat list)) idx = []
                         then get out idx + get b (bidx (shape b) (drop (length ([] :: nat list)) idx))
                         else get out idx)"
  have "broadcastable (shape b) (drop (length ([] :: nat list)) (shape out))"
    using assms by (simp add: broadcastable_def list_all2_same)
  then have r: "np_iadd_item out [] b = Inr ?out'"
    by (simp only: np_iadd_item_def Let_def if_True)
  have "get ?out' (i # rest) = get out (i # rest) + get b rest"
    if "i < n" "in_bounds sh rest" for i rest
  proof -
    have "bidx sh (i # rest) = rest"
      using bidx_suffix [OF that(2), of "[i]" "Suc (length sh)"] in_bounds_length [OF that(2)]
      by simp
    then show ?thesis
      using that assms by (simp add: get_tabulate)
  qed
  then show ?thesis
    using r assms(1) by (intro exI [of _ ?out']) simp
qed

text \<open>
  The constructor, given a stride from 1 on, a kernel that fits and sizes in the exact
  range of the division, returns such a layer.
\<close>

lemma conv_init_configured:
  assumes "conv_init rnd fd (int ic, int h, int w) (int oc) (int ks) (int s) = Inr self"
    and "0 < s" and "ks \<le> h" and "ks \<le> w"
    and "exact_range (int h - int ks) (int s)" and "exact_range (int w - int ks) (int s)"
  shows "c_input_channels self = int ic" and "c_output_channels self = int oc"
    and "c_stride self = int s"
    and "c_output_shape self = [int oc, int ((h - ks) div s + 1), int ((w - ks) div s + 1)]"
    and "shape (c_kernels self) = [oc, ic, ks, ks]"
    and "shape (c_biases self) = [oc, (h - ks) div s + 1, (w - ks) div s + 1]"
proof -
  have d: "(int h - int ks) div int s + 1 = int ((h - ks) div s + 1)"
    "(int w - int ks) div int s + 1 = int ((w - ks) div s + 1)"
    using assms(3,4) by (simp_all add: zdiv_int of_nat_diff)
  have n: "nat (1 + int x) = Suc x" for x
    by simp
  have r: "Inr self = conv_init rnd fd (int ic, int h, int w) (int oc) (int ks) (int s)"
    using assms(1) by simp
  show "c_input_channels self = int ic" "c_output_channels self = int oc"
    "c_stride self = int s"
    "c_output_shape self = [int oc, int ((h - ks) div s + 1), int ((w - ks) div s + 1)]"
    "shape (c_kernels self) = [oc, ic, ks, ks]"
    "shape (c_biases self) = [oc, (h - ks) div s + 1, (w - ks) div s + 1]"
    using r assms(2,5,6)
    by (simp_all add: conv_init_def output_size_def bind_e_def randn_def Let_def d n
          split: if_splits)
qed

text \<open>
  Claim C2, as the code has it.  For a layer configured for inputs \<open>(ic, h, w)\<close> with
  \<open>oc\<close> output channels, a stride \<open>s\<close> from 1 on and a kernel size \<open>ks\<close> from 1 up
  to the input height and width, and for a batch of shape \<open>[n, ic, h, w]\<close>, \<open>forward\<close>
  returns normally.  The output has shape
  \<open>[n, oc, (h - ks) div s + 1, (w - ks) div s + 1]\<close>, and its entry at \<open>[i, j, y, x]\<close> is
  the bias at \<open>[j, y, x]\<close> plus the sum over the input channels of the valid correlation
  of the input channel with the kernel, read at row \<open>y * s\<close> and column \<open>x * s\<close>.
\<close>

theorem conv_forward_output:
  assumes "c_input_channels self = int ic" and "c_output_channels self = int oc"
    and "c_stride self = int s"
    and "c_output_shape self = [int oc, int ((h - ks) div s + 1), int ((w - ks) div s + 1)]"
    and "shape (c_kernels self) = [oc, ic, ks, ks]"
    and "shape (c_biases self) = [oc, (h - ks) div s + 1, (w - ks) div s + 1]"
    and "0 < s" and "0 < ks" and "ks \<le> h" and "ks \<le> w"
    and "shape inputs = [n, ic, h, w]"
  shows "\<exists>out. conv_forward self inputs
                 = (None, self\<lparr>c_inputs := Some inputs, c_output := Some out\<rparr>)
           \<and> shape out = [n, oc, (h - ks) div s + 1, (w - ks) div s + 1]
           \<and> (\<forall>i<n. \<forall>j<oc. \<forall>y<(h - ks) div s + 1. \<forall>x<(w - ks) div s + 1.
                 get out [i, j, y, x]
                   = get (c_biases self) [j, y, x]
                     + (\<Sum>k<ic. \<Sum>u<ks. \<Sum>v<ks.
                          get inputs [i, k, y * s + u, x * s + v]
                            * get (c_kernels self) [j, k, u, v]))"
proof -
  let ?oh = "(h - ks) div s + 1" and ?ow = "(w - ks) div s + 1"
  let ?sh = "[n, oc, ?oh, ?ow]"
  let ?s1 = "self\<lparr>c_inputs := Some inputs\<rparr>"
  have z: "np_zeros (int n # c_output_shape self) = Inr (zeros ?sh)"
    using np_zeros_nat [of ?sh] assms(4) by simp
  obtain zb where zb: "np_iadd_item (zeros ?sh) [] (c_biases self) = Inr zb" "shape zb = ?sh"
    "\<forall>i rest. i < n \<longrightarrow> in_bounds [oc, ?oh, ?ow] rest \<longrightarrow>
        get zb (i # rest) = get (zeros ?sh) (i # rest) + get (c_biases self) rest"
    using biases_broadcast [of "zeros ?sh" n "[oc, ?oh, ?ow]" "c_biases self"] assms(6)
    by (auto simp: zeros_def)
  obtain out where out:
    "for_each [0..<n] (\<lambda>i. for_each [0..<oc] (\<lambda>j. for_each [0..<ic] (\<lambda>k.
        conv_forward_step i j k))) (?s1\<lparr>c_output := Some zb\<rparr>)
       = (None, ?s1\<lparr>c_output := Some out\<rparr>)"
    "shape out = shape zb"
    "\<forall>i<n. \<forall>j<oc. \<forall>y<?oh. \<forall>x<?ow.
        get out [i, j, y, x]
          = get zb [i, j, y, x] + (\<Sum>k<ic. window_sum inputs (c_kernels ?s1) ks s i j k y x)"
    using conv_forward_loops_accumulate
      [of ?s1 inputs s n ic h w oc ks zb] assms zb(2) by auto
  have fwd: "conv_forward self inputs = (None, self\<lparr>c_inputs := Some inputs, c_output := Some out\<rparr>)"
    using z zb(1) out(1) assms(1,2,11) by (simp add: conv_forward_def)
  have val: "get out [i, j, y, x]
               = get (c_biases self) [j, y, x]
                 + (\<Sum>k<ic. \<Sum>u<ks. \<Sum>v<ks.
                      get inputs [i, k, y * s + u, x * s + v] * get (c_kernels self) [j, k, u, v])"
    if b: "i < n" "j < oc" "y < ?oh" "x < ?ow" for i j y x
  proof -
    have "get zb [i, j, y, x] = get (zeros ?sh) [i, j, y, x] + get (c_biases self) [j, y, x]"
      using zb(3) b by simp
    moreover have "get (zeros ?sh) [i, j, y, x] = 0"
      using b by (simp add: zeros_def get_tabulate)
    ultimately show ?thesis
      using out(3) b by (simp add: window_sum_def)
  qed
  show ?thesis
    using fwd out(2) zb(2) val by (intro exI [of _ out]) simp
qed

theorem conv_forward_output_witness:
  "\<exists>out.
     conv_forward
       \<lparr>c_input_channels = 1, c_output_channels = 1, c_kernel_size = 2, c_stride = 2,
        c_output_shape = [1, 1, 1], c_kernels_shape = [1, 1, 2, 2],
        c_kernels = \<lparr>shape = [1, 1, 2, 2], data = [0, 1, 2, 3]\<rparr>,
        c_biases = \<lparr>shape = [1, 1, 1], data = [4]\<rparr>,
        c_inputs = None, c_output = None, c_dkernels = None, c_dbiases = None,
        c_dinputs = None\<rparr>
       \<lparr>shape = [1, 1, 3, 3], data = [1, 2, 3, 4, 5, 6, 7, 8, 9]\<rparr>
     = (None,
       \<lparr>c_input_channels = 1, c_output_channels = 1, c_kernel_size = 2, c_stride = 2,
        c_output_shape = [1, 1, 1], c_kernels_shape = [1, 1, 2, 2],
        c_kernels = \<lparr>shape = [1, 1, 2, 2], data = [0, 1, 2, 3]\<rparr>,
        c_biases = \<lparr>shape = [1, 1, 1], data = [4]\<rparr>,
        c_inputs = None, c_output = None, c_dkernels = None, c_dbiases = None,
        c_dinputs = None\<rparr>
        \<lparr>c_inputs := Some \<lparr>shape = [1, 1, 3, 3], data = [1, 2, 3, 4, 5, 6, 7, 8, 9]\<rparr>,
         c_output := Some out\<rparr>)
   \<and> shape out = [1, 1, 1, 1] \<and> get out [0, 0, 0, 0] = 29"
proof -
  let ?self = "\<lparr>c_input_channels = 1, c_output_channels = 1, c_kernel_size = 2, c_stride = 2,
        c_output_shape = [1, 1, 1], c_kernels_shape = [1, 1, 2, 2],
        c_kernels = \<lparr>shape = [1, 1, 2, 2], data = [0, 1, 2, 3]\<rparr>,
        c_biases = \<lparr>shape = [1, 1, 1], data = [4]\<rparr>,
        c_inputs = None, c_output = None, c_dkernels = None, c_dbiases = None,
        c_dinputs = None\<rparr>"
  let ?x = "\<lparr>shape = [1, 1, 3, 3], data = [1, 2, 3, 4, 5, 6, 7, 8, 9]\<rparr>"
  obtain out where r:
    "conv_forward ?self ?x = (None, ?self\<lparr>c_inputs := Some ?x, c_output := Some out\<rparr>)"
    "shape out = [1, 1, (3 - 2) div 2 + 1, (3 - 2) div 2 + 1]"
    "\<forall>i<1. \<forall>j<1. \<forall>y<(3 - 2) div 2 + 1. \<forall>x<(3 - 2) div 2 + 1.
        get out [i, j, y, x]
          = get (c_biases ?self) [j, y, x]
            + (\<Sum>k<1. \<Sum>u<2. \<Sum>v<2.
                 get ?x [i, k, y * 2 + u, x * 2 + v] * get (c_kernels ?self) [j, k, u, v])"
    using conv_forward_output [of ?self 1 1 2 3 2 3 ?x 1] by auto
  have "get out [0, 0, 0, 0] = 29"
    using r(3) by (simp add: get_def lessThan_Suc numeral_2_eq_2)
  then show ?thesis
    using r(1,2) by (intro exI [of _ out]) simp
qed

text \<open>
  Claim C2 as stated fails for a layer outside that range, which the constructor builds
  all the same: with a 2 by 2 input and kernel size 3 at stride 1 the output shape is
  \<open>(1, 0, 0)\<close>, and forward on a batch of the configured shape raises ValueError when
  the 2 by 2 correlation cannot be added to the empty output.
\<close>

theorem conv_forward_kernel_too_large:
  "conv_init real no_float_division (1, 2, 2) 1 3 1 =
     Inr \<lparr>c_input_channels = 1, c_output_channels = 1, c_kernel_size = 3, c_stride = 1,
          c_output_shape = [1, 0, 0], c_kernels_shape = [1, 1, 3, 3],
          c_kernels = \<lparr>shape = [1, 1, 3, 3], data = [0, 1, 2, 3, 4, 5, 6, 7, 8]\<rparr>,
          c_biases = \<lparr>shape = [1, 0, 0], data = []\<rparr>,
          c_inputs = None, c_output = None, c_dkernels = None, c_dbiases = None,
          c_dinputs = None\<rparr>
   \<and> conv_forward
       \<lparr>c_input_channels = 1, c_output_channels = 1, c_kernel_size = 3, c_stride = 1,
          c_output_shape = [1, 0, 0], c_kernels_shape = [1, 1, 3, 3],
          c_kernels = \<lparr>shape = [1, 1, 3, 3], data = [0, 1, 2, 3, 4, 5, 6, 7, 8]\<rparr>,
          c_biases = \<lparr>shape = [1, 0, 0], data = []\<rparr>,
          c_inputs = None, c_output = None, c_dkernels = None, c_dbiases = None,
          c_dinputs = None\<rparr>
       \<lparr>shape = [1, 1, 2, 2], data = [1, 2, 3, 4]\<rparr>
     = (Some ValueError,
       \<lparr>c_input_channels = 1, c_output_channels = 1, c_kernel_size = 3, c_stride = 1,
          c_output_shape = [1, 0, 0], c_kernels_shape = [1, 1, 3, 3],
          c_kernels = \<lparr>shape = [1, 1, 3, 3], data = [0, 1, 2, 3, 4, 5, 6, 7, 8]\<rparr>,
          c_biases = \<lparr>shape = [1, 0, 0], data = []\<rparr>,
          c_inputs = Some \<lparr>shape = [1, 1, 2, 2], data = [1, 2, 3, 4]\<rparr>,
          c_output = Some \<lparr>shape = [1, 1, 0, 0], data = []\<rparr>, c_dkernels = None, c_dbiases = None,
          c_dinputs = None\<rparr>)"
  by code_simp

section \<open>ConvolutionalLayer: the kernel gradient for a stride other than 1\<close>

lemma pad_to_shape_same:
  assumes "wf_array a"
  shows "pad_to_shape a (map int (shape a)) = Inr a"
proof -
  have "list_all2 (\<lambda>d t. int d \<le> t) (shape a) (map int (shape a))"
    by (simp add: list_all2_map2 list_all2_same)
  moreover have "tabulate (shape a) (\<lambda>idx. if in_bounds (shape a) idx then get a idx else 0)
                   = tabulate (shape a) (get a)"
    by (rule tabulate_cong) simp
  ultimately show ?thesis
    using tabulate_get [OF assms] by (simp add: pad_to_shape_def comp_def)
qed

lemma dilate_wf: "dilate d s = Inr dd \<Longrightarrow> wf_array dd"
  by (auto simp: dilate_def split: list.splits if_splits)

lemma conv_dkernel_pads:
  assumes "shape inputs = [n, ic, h, w]" and "i < n" and "k < ic"
    and "shape dkernels = [oc, ic', kh, kw]" and "j < oc" and "k < ic'"
  shows "conv_dkernel dd inputs dkernels delta i j k
           = bind_e (pad_to_shape dd [int h - int kh + 1, int h - int kh + 1])
               (correlate2d (tabulate [h, w] (\<lambda>rest. get inputs (i # k # rest))))"
proof -
  have x: "np_item inputs [i, k] = Inr (tabulate [h, w] (\<lambda>rest. get inputs (i # k # rest)))"
    using assms(1-3) by (rule np_item2)
  have kk: "np_item dkernels [j, k] = Inr (tabulate [kh, kw] (\<lambda>rest. get dkernels (j # k # rest)))"
    using assms(4-6) by (rule np_item2)
  show ?thesis
    by (simp add: conv_dkernel_def x kk bind_e_def shape0_def tuple_eq_int_def Let_def)
qed


section \<open>ConvolutionalLayer: backward at stride 1\<close>











lemma accumulated_shape: "accumulated f a b \<Longrightarrow> shape b = shape a"
  by (simp add: accumulated_def)












end
